theory Spec2Isabelle
  imports Main "HOL-Library.Word"
begin

section \<open>Python values, exceptions and byte strings\<close>

text \<open>
  The two scripts \<^verbatim>\<open>stm32-sign.py\<close> (local key) and \<^verbatim>\<open>stm32-sign-pkcs11.py\<close>
  (key on a PKCS#11 token) work on a \<^verbatim>\<open>bytearray\<close> holding the image and on a Python
  \<^verbatim>\<open>dict\<close> holding the decoded header. A byte is an 8-bit word, a byte string a list
  of bytes, the dict a map from key strings to Python values. An exception is the left
  summand of a result. Logging is left out: it does not touch the image or the result.
\<close>

type_synonym byte = "8 word"
type_synonym bytes = "byte list"

datatype pyval = PyBytes bytes | PyInt int

datatype exn = StructError | KeyError string | ValueError | OtherError

type_synonym stm32 = "string \<rightharpoonup> pyval"

text \<open>Python's \<^verbatim>\<open>xs[a:b]\<close> for \<open>0 \<le> a \<le> b\<close>.\<close>

definition slice :: "nat \<Rightarrow> nat \<Rightarrow> 'a list \<Rightarrow> 'a list" where
  "slice a b xs = take (b - a) (drop a xs)"

section \<open>The struct module, for the formats the header uses\<close>

text \<open>
  \<^verbatim>\<open>'<4s64s10I64s83xB'\<close>: little-endian, no alignment; \<^verbatim>\<open>Ns\<close> is a byte string of
  N bytes, \<^verbatim>\<open>I\<close> an unsigned 32-bit integer, \<^verbatim>\<open>Nx\<close> N pad bytes that take no
  argument and give no field, \<^verbatim>\<open>B\<close> an unsigned byte.
\<close>

datatype fmt_item = Fmt_s nat | Fmt_I | Fmt_x nat | Fmt_B

fun item_size :: "fmt_item \<Rightarrow> nat" where
  "item_size (Fmt_s n) = n"
| "item_size Fmt_I = 4"
| "item_size (Fmt_x n) = n"
| "item_size Fmt_B = 1"

definition calcsize :: "fmt_item list \<Rightarrow> nat" where
  "calcsize f = sum_list (map item_size f)"

fun le_to_int :: "bytes \<Rightarrow> int" where
  "le_to_int [] = 0"
| "le_to_int (b # bs) = uint b + 256 * le_to_int bs"

fun int_to_le :: "nat \<Rightarrow> int \<Rightarrow> bytes" where
  "int_to_le 0 v = []"
| "int_to_le (Suc n) v = word_of_int v # int_to_le n (v div 256)"

fun unpack_fields :: "fmt_item list \<Rightarrow> bytes \<Rightarrow> pyval list" where
  "unpack_fields [] bs = []"
| "unpack_fields (Fmt_s n # f) bs = PyBytes (take n bs) # unpack_fields f (drop n bs)"
| "unpack_fields (Fmt_I # f) bs = PyInt (le_to_int (take 4 bs)) # unpack_fields f (drop 4 bs)"
| "unpack_fields (Fmt_x n # f) bs = unpack_fields f (drop n bs)"
| "unpack_fields (Fmt_B # f) bs = PyInt (le_to_int (take 1 bs)) # unpack_fields f (drop 1 bs)"

text \<open>\<^verbatim>\<open>struct.unpack\<close> raises \<^verbatim>\<open>struct.error\<close> unless the buffer has exactly the size of the format.\<close>

definition struct_unpack :: "fmt_item list \<Rightarrow> bytes \<Rightarrow> exn + pyval list" where
  "struct_unpack f bs =
     (if length bs = calcsize f then Inr (unpack_fields f bs) else Inl StructError)"

text \<open>\<^verbatim>\<open>Ns\<close> on packing: a longer argument is cut, a shorter one is filled with zero bytes.\<close>

definition pack_s :: "nat \<Rightarrow> bytes \<Rightarrow> bytes" where
  "pack_s n b = take n b @ replicate (n - length b) 0"

text \<open>
  \<^verbatim>\<open>struct.pack\<close> raises \<^verbatim>\<open>struct.error\<close> on a wrong number of arguments, an argument of
  the wrong type, or an integer outside the range of its format.
\<close>

fun struct_pack :: "fmt_item list \<Rightarrow> pyval list \<Rightarrow> exn + bytes" where
  "struct_pack [] [] = Inr []"
| "struct_pack (Fmt_x n # f) vs =
     (case struct_pack f vs of Inl e \<Rightarrow> Inl e | Inr r \<Rightarrow> Inr (replicate n 0 @ r))"
| "struct_pack (Fmt_s n # f) (PyBytes b # vs) =
     (case struct_pack f vs of Inl e \<Rightarrow> Inl e | Inr r \<Rightarrow> Inr (pack_s n b @ r))"
| "struct_pack (Fmt_I # f) (PyInt v # vs) =
     (if 0 \<le> v \<and> v < 2 ^ 32
      then (case struct_pack f vs of Inl e \<Rightarrow> Inl e | Inr r \<Rightarrow> Inr (int_to_le 4 v @ r))
      else Inl StructError)"
| "struct_pack (Fmt_B # f) (PyInt v # vs) =
     (if 0 \<le> v \<and> v < 2 ^ 8
      then (case struct_pack f vs of Inl e \<Rightarrow> Inl e | Inr r \<Rightarrow> Inr (int_to_le 1 v @ r))
      else Inl StructError)"
| "struct_pack _ _ = Inl StructError"

text \<open>\<^verbatim>\<open>fmt = '<4s64s10I64s83xB'\<close>, the same in both scripts.\<close>

definition fmt :: "fmt_item list" where
  "fmt = [Fmt_s 4, Fmt_s 64,
          Fmt_I, Fmt_I, Fmt_I, Fmt_I, Fmt_I, Fmt_I, Fmt_I, Fmt_I, Fmt_I, Fmt_I,
          Fmt_s 64, Fmt_x 83, Fmt_B]"

section \<open>The header codec\<close>

text \<open>
  The arguments of \<^verbatim>\<open>struct.pack\<close> in \<^verbatim>\<open>repack_header\<close> are dict look-ups and the
  literal 0. Python evaluates them from left to right, so the first missing key raises
  \<^verbatim>\<open>KeyError\<close> before anything is packed.
\<close>

datatype arg = Item string | Lit int

fun eval_args :: "stm32 \<Rightarrow> arg list \<Rightarrow> exn + pyval list" where
  "eval_args d [] = Inr []"
| "eval_args d (Lit v # as) =
     (case eval_args d as of Inl e \<Rightarrow> Inl e | Inr vs \<Rightarrow> Inr (PyInt v # vs))"
| "eval_args d (Item k # as) =
     (case d k of None \<Rightarrow> Inl (KeyError k)
      | Some v \<Rightarrow> (case eval_args d as of Inl e \<Rightarrow> Inl e | Inr vs \<Rightarrow> Inr (v # vs)))"

subsection \<open>stm32-sign.py\<close>

text \<open>
  \<^verbatim>\<open>unpack_header\<close> of the local-key script assigns the key \<^verbatim>\<open>'hdr_version'\<close> twice,
  first from \<^verbatim>\<open>fields[3]\<close> and then from \<^verbatim>\<open>fields[9]\<close>; the second assignment wins,
  as the later map update does here. There is no key \<^verbatim>\<open>'rollback_version'\<close>.
\<close>

definition unpack_header :: "bytes \<Rightarrow> exn + stm32" where
  "unpack_header img =
     (case struct_unpack fmt (take 256 img) of
        Inl e \<Rightarrow> Inl e
      | Inr fields \<Rightarrow> Inr (Map.empty
          (''magic'' \<mapsto> fields ! 0,
           ''signature'' \<mapsto> fields ! 1,
           ''checksum'' \<mapsto> fields ! 2,
           ''hdr_version'' \<mapsto> fields ! 3,
           ''length'' \<mapsto> fields ! 4,
           ''entry_addr'' \<mapsto> fields ! 5,
           ''load_addr'' \<mapsto> fields ! 7,
           ''hdr_version'' \<mapsto> fields ! 9,
           ''option_flags'' \<mapsto> fields ! 10,
           ''ecdsa_algo'' \<mapsto> fields ! 11,
           ''ecdsa_pubkey'' \<mapsto> fields ! 12)))"

definition repack_args :: "arg list" where
  "repack_args =
     [Item ''magic'', Item ''signature'', Item ''checksum'', Item ''hdr_version'',
      Item ''length'', Item ''entry_addr'', Lit 0, Item ''load_addr'', Lit 0,
      Item ''hdr_version'', Item ''option_flags'', Item ''ecdsa_algo'',
      Item ''ecdsa_pubkey'', Lit 0]"

text \<open>
  \<^verbatim>\<open>image[0:256] = struct.pack(...)\<close>: the slice assignment to the bytearray happens
  only once the right-hand side has been computed. The result is the new content of
  the buffer; on an exception the buffer is as it was.
\<close>

definition repack_header :: "bytes \<Rightarrow> stm32 \<Rightarrow> exn + bytes" where
  "repack_header img stm32 =
     (case eval_args stm32 repack_args of
        Inl e \<Rightarrow> Inl e
      | Inr vs \<Rightarrow>
          (case struct_pack fmt vs of
             Inl e \<Rightarrow> Inl e
           | Inr packed \<Rightarrow> Inr (packed @ drop 256 img)))"

subsection \<open>stm32-sign-pkcs11.py\<close>

definition pkcs11_unpack_header :: "bytes \<Rightarrow> exn + stm32" where
  "pkcs11_unpack_header img =
     (case struct_unpack fmt (take 256 img) of
        Inl e \<Rightarrow> Inl e
      | Inr fields \<Rightarrow> Inr (Map.empty
          (''magic'' \<mapsto> fields ! 0,
           ''signature'' \<mapsto> fields ! 1,
           ''checksum'' \<mapsto> fields ! 2,
           ''hdr_version'' \<mapsto> fields ! 3,
           ''length'' \<mapsto> fields ! 4,
           ''entry_addr'' \<mapsto> fields ! 5,
           ''load_addr'' \<mapsto> fields ! 7,
           ''rollback_version'' \<mapsto> fields ! 9,
           ''option_flags'' \<mapsto> fields ! 10,
           ''ecdsa_algo'' \<mapsto> fields ! 11,
           ''ecdsa_pubkey'' \<mapsto> fields ! 12)))"

definition pkcs11_repack_args :: "arg list" where
  "pkcs11_repack_args =
     [Item ''magic'', Item ''signature'', Item ''checksum'', Item ''hdr_version'',
      Item ''length'', Item ''entry_addr'', Lit 0, Item ''load_addr'', Lit 0,
      Item ''rollback_version'', Item ''option_flags'', Item ''ecdsa_algo'',
      Item ''ecdsa_pubkey'', Lit 0]"

definition pkcs11_repack_header :: "bytes \<Rightarrow> stm32 \<Rightarrow> exn + bytes" where
  "pkcs11_repack_header img stm32 =
     (case eval_args stm32 pkcs11_repack_args of
        Inl e \<Rightarrow> Inl e
      | Inr vs \<Rightarrow>
          (case struct_pack fmt vs of
             Inl e \<Rightarrow> Inl e
           | Inr packed \<Rightarrow> Inr (packed @ drop 256 img)))"

section \<open>Keys and the primitives the scripts call\<close>

text \<open>
  An ECC key as the scripts read it: the curve name, the public point, and the private
  scalar when the key has one. A key object on a PKCS#11 token is taken as the ECC key
  that \<^verbatim>\<open>ECC.import_key(encode_ec_public_key(pubkey))\<close> makes of it.
\<close>

record ecc_key =
  curve :: string
  pointQ_x :: nat
  pointQ_y :: nat
  private_scalar :: "nat option"

text \<open>\<^verbatim>\<open>Integer.to_bytes()\<close>: big-endian, as few bytes as the value needs, one byte for 0.\<close>

fun to_bytes :: "nat \<Rightarrow> bytes" where
  "to_bytes n = (if n < 256 then [of_nat n] else to_bytes (n div 256) @ [of_nat n])"

declare to_bytes.simps [simp del]

definition rjust :: "nat \<Rightarrow> byte \<Rightarrow> bytes \<Rightarrow> bytes" where
  "rjust w c b = replicate (w - length b) c @ b"

definition get_raw_pubkey :: "ecc_key \<Rightarrow> bytes" where
  "get_raw_pubkey key =
     (let coord_x_bytes = rjust 32 0 (to_bytes (pointQ_x key));
          coord_y_bytes = rjust 32 0 (to_bytes (pointQ_y key))
      in coord_x_bytes @ coord_y_bytes)"

definition key_algorithm :: "ecc_key \<Rightarrow> exn + int" where
  "key_algorithm key =
     (let p256_names = [''NIST P-256'', ''p256'', ''P-256'', ''prime256v1'', ''secp256r1''];
          brainpool_names = []
      in if curve key \<in> set p256_names then Inr 1
         else if curve key \<in> set brainpool_names then Inr 2
         else Inl ValueError)"

text \<open>
  SHA-256, ECDSA and the PKCS#11 token are libraries the scripts call; they are
  parameters here. Signing takes the value the library draws from its random number
  generator as an argument, \<open>Inl\<close> is an exception the library raises.
  \<open>DSS_verify\<close> gives \<open>Inr False\<close> where \<^verbatim>\<open>verifier.verify\<close> raises the
  \<^verbatim>\<open>ValueError\<close> that the scripts catch.
\<close>

datatype object_class = PRIVATE_KEY | PUBLIC_KEY

type_synonym session = "string \<Rightarrow> object_class \<Rightarrow> exn + ecc_key"

record crypto =
  SHA256 :: "bytes \<Rightarrow> bytes"
  DSS_sign :: "ecc_key \<Rightarrow> nat \<Rightarrow> bytes \<Rightarrow> exn + bytes"
  DSS_verify :: "ecc_key \<Rightarrow> bytes \<Rightarrow> bytes \<Rightarrow> exn + bool"
  open_session :: "string \<Rightarrow> string \<Rightarrow> string \<Rightarrow> exn + session"
  token_sign :: "ecc_key \<Rightarrow> nat \<Rightarrow> bytes \<Rightarrow> exn + bytes"

definition STM2 :: bytes where
  "STM2 = [0x53, 0x54, 0x4D, 0x32]"

definition get_bytes :: "stm32 \<Rightarrow> string \<Rightarrow> exn + bytes" where
  "get_bytes d k =
     (case d k of
        None \<Rightarrow> Inl (KeyError k)
      | Some (PyBytes b) \<Rightarrow> Inr b
      | Some (PyInt v) \<Rightarrow> Inl OtherError)"

section \<open>Signing and verifying with a local key (stm32-sign.py)\<close>

text \<open>The return values: 0 valid, 1 the image holds another public key, 2 the signature is wrong.\<close>

definition verify_signature :: "crypto \<Rightarrow> bytes \<Rightarrow> ecc_key \<Rightarrow> exn + int" where
  "verify_signature P img key =
     (case unpack_header img of
        Inl e \<Rightarrow> Inl e
      | Inr hdr \<Rightarrow>
          (case get_bytes hdr ''signature'' of
             Inl e \<Rightarrow> Inl e
           | Inr signature \<Rightarrow>
               let image_pubkey = hdr ''ecdsa_pubkey'';
                   raw_pubkey = get_raw_pubkey key
               in if Some (PyBytes raw_pubkey) \<noteq> image_pubkey then Inr 1
                  else (case DSS_verify P key (SHA256 P (drop 0x48 img)) signature of
                          Inl e \<Rightarrow> Inl e
                        | Inr ok \<Rightarrow> if ok then Inr 0 else Inr 2)))"

text \<open>
  \<^verbatim>\<open>sign_image\<close> returns its result together with the content of the bytearray when it
  returns or raises. \<^verbatim>\<open>image[0x04:0x44] = signature\<close> replaces 64 bytes by the
  signature, whatever its length. The result of the closing \<^verbatim>\<open>verify_signature\<close> call
  is dropped, an exception of it is not.
\<close>

definition sign_image :: "crypto \<Rightarrow> nat \<Rightarrow> bytes \<Rightarrow> ecc_key \<Rightarrow> (exn + int) \<times> bytes" where
  "sign_image P rnd img key =
     (case unpack_header img of
        Inl e \<Rightarrow> (Inl e, img)
      | Inr stm32 \<Rightarrow>
          if stm32 ''magic'' \<noteq> Some (PyBytes STM2) then (Inr (- 1), img)
          else
            let stm32 = stm32(''ecdsa_pubkey'' \<mapsto> PyBytes (get_raw_pubkey key)) in
            (case key_algorithm key of
               Inl e \<Rightarrow> (Inl e, img)
             | Inr algo \<Rightarrow>
                 let stm32 = stm32(''ecdsa_algo'' \<mapsto> PyInt algo, ''option_flags'' \<mapsto> PyInt 0) in
                 (case repack_header img stm32 of
                    Inl e \<Rightarrow> (Inl e, img)
                  | Inr img1 \<Rightarrow>
                      let sha = SHA256 P (drop 0x48 img1) in
                      (case DSS_sign P key rnd sha of
                         Inl e \<Rightarrow> (Inl e, img1)
                       | Inr signature \<Rightarrow>
                           let img2 = take 0x04 img1 @ signature @ drop 0x44 img1 in
                           (case verify_signature P img2 key of
                              Inl e \<Rightarrow> (Inl e, img2)
                            | Inr r \<Rightarrow> (Inr 0, img2))))))"

section \<open>Signing and verifying with a key on a token (stm32-sign-pkcs11.py)\<close>

definition pkcs11_sign_image ::
  "crypto \<Rightarrow> nat \<Rightarrow> bytes \<Rightarrow> string \<Rightarrow> string \<Rightarrow> string \<Rightarrow> string \<Rightarrow> (exn + int) \<times> bytes" where
  "pkcs11_sign_image P rnd img module_path token key_label pin =
     (case pkcs11_unpack_header img of
        Inl e \<Rightarrow> (Inl e, img)
      | Inr stm32 \<Rightarrow>
          if stm32 ''magic'' \<noteq> Some (PyBytes STM2) then (Inr (- 1), img)
          else
            (case open_session P module_path token pin of
               Inl e \<Rightarrow> (Inl e, img)
             | Inr session \<Rightarrow>
            (case session key_label PRIVATE_KEY of
               Inl e \<Rightarrow> (Inl e, img)
             | Inr privkey \<Rightarrow>
            (case session key_label PUBLIC_KEY of
               Inl e \<Rightarrow> (Inl e, img)
             | Inr pubkey \<Rightarrow>
                 let stm32 = stm32(''ecdsa_pubkey'' \<mapsto> PyBytes (get_raw_pubkey pubkey)) in
                 (case key_algorithm pubkey of
                    Inl e \<Rightarrow> (Inl e, img)
                  | Inr algo \<Rightarrow>
                      let stm32 = stm32(''ecdsa_algo'' \<mapsto> PyInt algo, ''option_flags'' \<mapsto> PyInt 0) in
                      (case pkcs11_repack_header img stm32 of
                         Inl e \<Rightarrow> (Inl e, img)
                       | Inr img1 \<Rightarrow>
                           let sha = SHA256 P (drop 0x48 img1) in
                           (case token_sign P privkey rnd sha of
                              Inl e \<Rightarrow> (Inl e, img1)
                            | Inr signature \<Rightarrow>
                                (Inr 0, take 0x04 img1 @ signature @ drop 0x44 img1))))))))"

definition pkcs11_verify_signature ::
  "crypto \<Rightarrow> bytes \<Rightarrow> string \<Rightarrow> string \<Rightarrow> string \<Rightarrow> string \<Rightarrow> exn + int" where
  "pkcs11_verify_signature P img module_path token key_label pin =
     (case pkcs11_unpack_header img of
        Inl e \<Rightarrow> Inl e
      | Inr hdr \<Rightarrow>
          (case get_bytes hdr ''signature'' of
             Inl e \<Rightarrow> Inl e
           | Inr signature \<Rightarrow>
               let image_pubkey = hdr ''ecdsa_pubkey'' in
               (case open_session P module_path token pin of
                  Inl e \<Rightarrow> Inl e
                | Inr session \<Rightarrow>
                    (case session key_label PUBLIC_KEY of
                       Inl e \<Rightarrow> Inl e
                     | Inr pubkey \<Rightarrow>
                         (case DSS_verify P pubkey (SHA256 P (drop 0x48 img)) signature of
                            Inl e \<Rightarrow> Inl e
                          | Inr ok \<Rightarrow> if ok then Inr 0 else Inr 2)))))"

section \<open>Notions used in the statements and proofs\<close>

text \<open>The range of the format \<^verbatim>\<open>I\<close>.\<close>

definition u32 :: "int \<Rightarrow> bool" where
  "u32 v = (0 \<le> v \<and> v < 2 ^ 32)"

text \<open>
  The 256 bytes that \<^verbatim>\<open>struct.pack\<close> gives for the fourteen arguments of
  \<^verbatim>\<open>repack_header\<close>, the three literal zeros among them.
\<close>

definition header_bytes ::
  "bytes \<Rightarrow> bytes \<Rightarrow> int \<Rightarrow> int \<Rightarrow> int \<Rightarrow> int \<Rightarrow> int \<Rightarrow> int \<Rightarrow> int \<Rightarrow> int \<Rightarrow> bytes \<Rightarrow> bytes" where
  "header_bytes m s c hv len entry load rv flags algo pk =
     pack_s 4 m @ pack_s 64 s @ int_to_le 4 c @ int_to_le 4 hv @ int_to_le 4 len @
     int_to_le 4 entry @ int_to_le 4 0 @ int_to_le 4 load @ int_to_le 4 0 @ int_to_le 4 rv @
     int_to_le 4 flags @ int_to_le 4 algo @ pack_s 64 pk @ replicate 83 0 @ int_to_le 1 0"

text \<open>The curve names that \<^verbatim>\<open>key_algorithm\<close> accepts.\<close>

definition p256_names :: "string list" where
  "p256_names = [''NIST P-256'', ''p256'', ''P-256'', ''prime256v1'', ''secp256r1'']"

text \<open>
  The buffer after \<^verbatim>\<open>repack_header\<close> in \<^verbatim>\<open>sign_image\<close>, for an image of 256 bytes
  or more and the raw public key \<open>pk\<close>: every field is packed from what
  \<^verbatim>\<open>unpack_header\<close> read, \<^verbatim>\<open>option_flags\<close> is 0 and \<^verbatim>\<open>ecdsa_algo\<close> is 1. The
  local-key script packs the value it read at offset 0x60 twice.
\<close>

definition sign_rewrite :: "bytes \<Rightarrow> bytes \<Rightarrow> bytes" where
  "sign_rewrite img pk =
     header_bytes (slice 0 4 img) (slice 4 68 img) (le_to_int (slice 68 72 img))
       (le_to_int (slice 96 100 img)) (le_to_int (slice 76 80 img))
       (le_to_int (slice 80 84 img)) (le_to_int (slice 88 92 img))
       (le_to_int (slice 96 100 img)) 0 1 pk @ drop 256 img"

definition pkcs11_sign_rewrite :: "bytes \<Rightarrow> bytes \<Rightarrow> bytes" where
  "pkcs11_sign_rewrite img pk =
     header_bytes (slice 0 4 img) (slice 4 68 img) (le_to_int (slice 68 72 img))
       (le_to_int (slice 72 76 img)) (le_to_int (slice 76 80 img))
       (le_to_int (slice 80 84 img)) (le_to_int (slice 88 92 img))
       (le_to_int (slice 96 100 img)) 0 1 pk @ drop 256 img"

text \<open>
  A header record as the specification has it, in the form of the dict that the PKCS#11
  script decodes: the eleven keys, byte strings of the width of their field, integers
  in the range of 32 bits. The reserved fields are not part of the dict in either script.
\<close>

definition is_bytes :: "nat \<Rightarrow> pyval option \<Rightarrow> bool" where
  "is_bytes n v = (case v of Some (PyBytes b) \<Rightarrow> length b = n | _ \<Rightarrow> False)"

definition is_u32 :: "pyval option \<Rightarrow> bool" where
  "is_u32 v = (case v of Some (PyInt i) \<Rightarrow> u32 i | _ \<Rightarrow> False)"

definition header_keys :: "string list" where
  "header_keys =
     [''magic'', ''signature'', ''checksum'', ''hdr_version'', ''length'', ''entry_addr'',
      ''load_addr'', ''rollback_version'', ''option_flags'', ''ecdsa_algo'', ''ecdsa_pubkey'']"

definition header_record :: "stm32 \<Rightarrow> bool" where
  "header_record h \<longleftrightarrow>
     dom h = set header_keys \<and>
     is_bytes 4 (h ''magic'') \<and> is_bytes 64 (h ''signature'') \<and> is_u32 (h ''checksum'') \<and>
     is_u32 (h ''hdr_version'') \<and> is_u32 (h ''length'') \<and> is_u32 (h ''entry_addr'') \<and>
     is_u32 (h ''load_addr'') \<and> is_u32 (h ''rollback_version'') \<and>
     is_u32 (h ''option_flags'') \<and> is_u32 (h ''ecdsa_algo'') \<and>
     is_bytes 64 (h ''ecdsa_pubkey'')"

subsection \<open>Concrete inputs\<close>

text \<open>
  A P-256 key (the private scalar 1, whose public point is the generator of the curve)
  and a key on P-384.
\<close>

definition test_key :: ecc_key where
  "test_key = \<lparr>curve = ''prime256v1'',
     pointQ_x = 0x6B17D1F2E12C4247F8BCE6E563A440F277037D812DEB33A0F4A13945D898C296,
     pointQ_y = 0x4FE342E2FE1A7F9B8EE7EB4A7C0F9E162BCE33576B315ECECBB6406837BF51F5,
     private_scalar = Some 1\<rparr>"

definition p384_key :: ecc_key where
  "p384_key = \<lparr>curve = ''secp384r1'',
     pointQ_x = 0xAA87CA22BE8B05378EB1C71EF320AD746E1D3B628BA79B9859F741E082542A385502F25DBF55296C3A545E3872760AB7,
     pointQ_y = 0x3617DE4A96262C6F5D9E98BF9292DC29F8F41DBD289A147CE9DA3113B5F0B8C00A60B1CE1D7E819D7A431D7C90EA0E5F,
     private_scalar = Some 1\<rparr>"

text \<open>
  Stand-ins for the libraries, to run the definitions on concrete inputs: a hash of 32
  bytes, a signature of 64 bytes whose first half comes from the random draw and whose
  second half ties the digest to the key, and a token that holds \<open>test_key\<close> under
  the label \<^verbatim>\<open>key6892\<close>.
\<close>

definition stub_sha :: "bytes \<Rightarrow> bytes" where
  "stub_sha bs = pack_s 32 (rev bs)"

definition stub_tag :: "ecc_key \<Rightarrow> bytes \<Rightarrow> bytes" where
  "stub_tag key digest = pack_s 32 (map (\<lambda>b. b + of_nat (pointQ_x key)) digest)"

definition stub_sign :: "ecc_key \<Rightarrow> nat \<Rightarrow> bytes \<Rightarrow> exn + bytes" where
  "stub_sign key rnd digest =
     (case private_scalar key of
        None \<Rightarrow> Inl OtherError
      | Some d \<Rightarrow> Inr (pack_s 32 (to_bytes rnd) @ stub_tag key digest))"

definition stub_verify :: "ecc_key \<Rightarrow> bytes \<Rightarrow> bytes \<Rightarrow> exn + bool" where
  "stub_verify key digest s = Inr (length s = 64 \<and> drop 32 s = stub_tag key digest)"

definition stub_session :: session where
  "stub_session label cls =
     (if label = ''key6892'' then Inr test_key else Inl OtherError)"

definition stub_crypto :: crypto where
  "stub_crypto = \<lparr>SHA256 = stub_sha, DSS_sign = stub_sign, DSS_verify = stub_verify,
     open_session = (\<lambda>module_path token pin. Inr stub_session), token_sign = stub_sign\<rparr>"

text \<open>
  An image of 272 bytes: the magic, an empty signature and checksum, header version 1.0
  at 0x48 (the bytes 00 00 01 00), image length 16 at 0x4C, zeros up to the end of the
  header (so the word at 0x60 is 0 and the embedded public key is empty), and a payload
  of 16 bytes.
\<close>

definition test_image :: bytes where
  "test_image =
     STM2 @ replicate 68 0 @ [0, 0, 1, 0] @ [16, 0, 0, 0] @ replicate 176 0 @ replicate 16 0xAB"

text \<open>
  \<open>test_image\<close> with a signature in bytes 0x04 to 0x44 that the stand-in library
  accepts for \<open>test_key\<close>, while the public key in the header is still all zero.
\<close>

definition unbound_image :: bytes where
  "unbound_image =
     STM2 @ ([3] @ replicate 31 0 @ replicate 16 0x41 @ replicate 16 0x96) @ drop 68 test_image"

text \<open>A header record with header version 1.0 and anti-rollback counter 7.\<close>

definition test_header :: stm32 where
  "test_header =
     [''magic'' \<mapsto> PyBytes STM2, ''signature'' \<mapsto> PyBytes (replicate 64 0),
      ''checksum'' \<mapsto> PyInt 0, ''hdr_version'' \<mapsto> PyInt 65536, ''length'' \<mapsto> PyInt 16,
      ''entry_addr'' \<mapsto> PyInt 0, ''load_addr'' \<mapsto> PyInt 0,
      ''rollback_version'' \<mapsto> PyInt 7, ''option_flags'' \<mapsto> PyInt 0,
      ''ecdsa_algo'' \<mapsto> PyInt 1, ''ecdsa_pubkey'' \<mapsto> PyBytes (replicate 64 0)]"

section \<open>Integers and byte strings\<close>

lemma length_int_to_le [simp]: "length (int_to_le n v) = n"
  by (induction n arbitrary: v) auto

lemma le_to_int_ge0: "0 \<le> le_to_int bs"
  by (induction bs) auto

lemma le_to_int_lt: "le_to_int bs < 256 ^ length bs"
proof (induction bs)
  case Nil
  show ?case by simp
next
  case (Cons b bs)
  have "uint b < 256" using uint_bounded [of b] by simp
  with Cons show ?case by simp
qed

lemma le_to_int_int_to_le:
  "0 \<le> v \<Longrightarrow> v < 256 ^ n \<Longrightarrow> le_to_int (int_to_le n v) = v"
proof (induction n arbitrary: v)
  case 0
  then show ?case by simp
next
  case (Suc n)
  have "0 \<le> v div 256" using Suc.prems by simp
  moreover have "v div 256 < 256 ^ n"
    using Suc.prems by (simp add: div_less_iff_less_mult mult.commute)
  ultimately have "le_to_int (int_to_le n (v div 256)) = v div 256" by (rule Suc.IH)
  moreover have "uint (word_of_int v :: byte) = v mod 256"
    by (simp add: uint_word_of_int take_bit_eq_mod)
  ultimately show ?case by simp
qed

lemma int_to_le_le_to_int: "int_to_le (length bs) (le_to_int bs) = bs"
proof (induction bs)
  case Nil
  show ?case by simp
next
  case (Cons b bs)
  have "uint b < 256" "0 \<le> uint b" using uint_bounded [of b] by simp_all
  then have d: "(uint b + 256 * le_to_int bs) div 256 = le_to_int bs" by simp
  have z: "(256::byte) = 0" by simp
  have "(word_of_int (uint b + 256 * le_to_int bs) :: byte) = b"
    by (simp add: z)
  with d Cons show ?case by simp
qed

lemma length_pack_s [simp]: "length (pack_s n b) = n"
  by (simp add: pack_s_def)

lemma pack_s_id: "length b = n \<Longrightarrow> pack_s n b = b"
  by (simp add: pack_s_def)

section \<open>Decoding\<close>

lemma calcsize_fmt [simp]: "calcsize fmt = 256"
  by (simp add: calcsize_def fmt_def)

lemma unpack_fields_fmt:
  "unpack_fields fmt bs =
     [PyBytes (slice 0 4 bs), PyBytes (slice 4 68 bs),
      PyInt (le_to_int (slice 68 72 bs)), PyInt (le_to_int (slice 72 76 bs)),
      PyInt (le_to_int (slice 76 80 bs)), PyInt (le_to_int (slice 80 84 bs)),
      PyInt (le_to_int (slice 84 88 bs)), PyInt (le_to_int (slice 88 92 bs)),
      PyInt (le_to_int (slice 92 96 bs)), PyInt (le_to_int (slice 96 100 bs)),
      PyInt (le_to_int (slice 100 104 bs)), PyInt (le_to_int (slice 104 108 bs)),
      PyBytes (slice 108 172 bs), PyInt (le_to_int (slice 255 256 bs))]"
  by (simp add: fmt_def slice_def)

lemma slice_take: "b \<le> n \<Longrightarrow> slice a b (take n xs) = slice a b xs"
  by (simp add: slice_def drop_take)

lemma slice_0_4: "slice 0 4 img = take 4 img"
  by (simp add: slice_def)

lemma unpack_header_Inr:
  "256 \<le> length img \<Longrightarrow> unpack_header img = Inr
     [''magic'' \<mapsto> PyBytes (slice 0 4 img),
      ''signature'' \<mapsto> PyBytes (slice 4 68 img),
      ''checksum'' \<mapsto> PyInt (le_to_int (slice 68 72 img)),
      ''length'' \<mapsto> PyInt (le_to_int (slice 76 80 img)),
      ''entry_addr'' \<mapsto> PyInt (le_to_int (slice 80 84 img)),
      ''load_addr'' \<mapsto> PyInt (le_to_int (slice 88 92 img)),
      ''hdr_version'' \<mapsto> PyInt (le_to_int (slice 96 100 img)),
      ''option_flags'' \<mapsto> PyInt (le_to_int (slice 100 104 img)),
      ''ecdsa_algo'' \<mapsto> PyInt (le_to_int (slice 104 108 img)),
      ''ecdsa_pubkey'' \<mapsto> PyBytes (slice 108 172 img)]"
  by (simp add: unpack_header_def struct_unpack_def unpack_fields_fmt slice_take)

lemma unpack_header_Inl:
  "length img < 256 \<Longrightarrow> unpack_header img = Inl StructError"
  by (simp add: unpack_header_def struct_unpack_def)

lemma pkcs11_unpack_header_Inr:
  "256 \<le> length img \<Longrightarrow> pkcs11_unpack_header img = Inr
     [''magic'' \<mapsto> PyBytes (slice 0 4 img),
      ''signature'' \<mapsto> PyBytes (slice 4 68 img),
      ''checksum'' \<mapsto> PyInt (le_to_int (slice 68 72 img)),
      ''hdr_version'' \<mapsto> PyInt (le_to_int (slice 72 76 img)),
      ''length'' \<mapsto> PyInt (le_to_int (slice 76 80 img)),
      ''entry_addr'' \<mapsto> PyInt (le_to_int (slice 80 84 img)),
      ''load_addr'' \<mapsto> PyInt (le_to_int (slice 88 92 img)),
      ''rollback_version'' \<mapsto> PyInt (le_to_int (slice 96 100 img)),
      ''option_flags'' \<mapsto> PyInt (le_to_int (slice 100 104 img)),
      ''ecdsa_algo'' \<mapsto> PyInt (le_to_int (slice 104 108 img)),
      ''ecdsa_pubkey'' \<mapsto> PyBytes (slice 108 172 img)]"
  by (simp add: pkcs11_unpack_header_def struct_unpack_def unpack_fields_fmt slice_take)

lemma pkcs11_unpack_header_Inl:
  "length img < 256 \<Longrightarrow> pkcs11_unpack_header img = Inl StructError"
  by (simp add: pkcs11_unpack_header_def struct_unpack_def)

section \<open>Encoding, and the steps of signing\<close>

lemma length_slice_le: "length (slice a b xs) \<le> b - a"
  by (simp add: slice_def)

lemma length_slice: "b \<le> length xs \<Longrightarrow> length (slice a b xs) = b - a"
  by (simp add: slice_def)

lemma le_to_int_u32: "length bs \<le> 4 \<Longrightarrow> u32 (le_to_int bs)"
proof -
  assume a: "length bs \<le> 4"
  have "le_to_int bs < 256 ^ length bs" by (rule le_to_int_lt)
  also have "(256::int) ^ length bs \<le> 256 ^ 4" using a by (intro power_increasing) simp_all
  finally show ?thesis by (simp add: u32_def le_to_int_ge0)
qed

lemma u32_slice [simp]:
  "u32 (le_to_int (slice 68 72 img))" "u32 (le_to_int (slice 72 76 img))"
  "u32 (le_to_int (slice 76 80 img))" "u32 (le_to_int (slice 80 84 img))"
  "u32 (le_to_int (slice 88 92 img))" "u32 (le_to_int (slice 96 100 img))"
  "u32 (le_to_int (slice 100 104 img))" "u32 (le_to_int (slice 104 108 img))"
  by (rule le_to_int_u32, simp add: slice_def)+

lemma u32_0_1 [simp]: "u32 0" "u32 1"
  by (simp_all add: u32_def)

lemma key_algorithm_eq:
  "key_algorithm key = (if curve key \<in> set p256_names then Inr 1 else Inl ValueError)"
  by (simp add: key_algorithm_def p256_names_def)

lemma repack_header_eq:
  assumes "h ''magic'' = Some (PyBytes m)" "h ''signature'' = Some (PyBytes s)"
    "h ''checksum'' = Some (PyInt c)" "h ''hdr_version'' = Some (PyInt hv)"
    "h ''length'' = Some (PyInt len)" "h ''entry_addr'' = Some (PyInt entry)"
    "h ''load_addr'' = Some (PyInt load)" "h ''option_flags'' = Some (PyInt flags)"
    "h ''ecdsa_algo'' = Some (PyInt algo)" "h ''ecdsa_pubkey'' = Some (PyBytes pk)"
    "u32 c" "u32 hv" "u32 len" "u32 entry" "u32 load" "u32 flags" "u32 algo"
  shows "repack_header img h =
           Inr (header_bytes m s c hv len entry load hv flags algo pk @ drop 256 img)"
  using assms
  by (simp add: repack_header_def repack_args_def fmt_def u32_def header_bytes_def)

lemma pkcs11_repack_header_eq:
  assumes "h ''magic'' = Some (PyBytes m)" "h ''signature'' = Some (PyBytes s)"
    "h ''checksum'' = Some (PyInt c)" "h ''hdr_version'' = Some (PyInt hv)"
    "h ''length'' = Some (PyInt len)" "h ''entry_addr'' = Some (PyInt entry)"
    "h ''load_addr'' = Some (PyInt load)" "h ''rollback_version'' = Some (PyInt rv)"
    "h ''option_flags'' = Some (PyInt flags)"
    "h ''ecdsa_algo'' = Some (PyInt algo)" "h ''ecdsa_pubkey'' = Some (PyBytes pk)"
    "u32 c" "u32 hv" "u32 len" "u32 entry" "u32 load" "u32 rv" "u32 flags" "u32 algo"
  shows "pkcs11_repack_header img h =
           Inr (header_bytes m s c hv len entry load rv flags algo pk @ drop 256 img)"
  using assms
  by (simp add: pkcs11_repack_header_def pkcs11_repack_args_def fmt_def u32_def header_bytes_def)

lemma sign_image_unfold:
  assumes "256 \<le> length img" "take 4 img = STM2" "curve key \<in> set p256_names"
  shows "sign_image P rnd img key =
     (let img1 = sign_rewrite img (get_raw_pubkey key) in
      case DSS_sign P key rnd (SHA256 P (drop 72 img1)) of
        Inl e \<Rightarrow> (Inl e, img1)
      | Inr signature \<Rightarrow>
          let img2 = take 4 img1 @ signature @ drop 68 img1 in
          (case verify_signature P img2 key of
             Inl e \<Rightarrow> (Inl e, img2)
           | Inr r \<Rightarrow> (Inr 0, img2)))"
proof -
  let ?h = "[''magic'' \<mapsto> PyBytes (slice 0 4 img),
      ''signature'' \<mapsto> PyBytes (slice 4 68 img),
      ''checksum'' \<mapsto> PyInt (le_to_int (slice 68 72 img)),
      ''length'' \<mapsto> PyInt (le_to_int (slice 76 80 img)),
      ''entry_addr'' \<mapsto> PyInt (le_to_int (slice 80 84 img)),
      ''load_addr'' \<mapsto> PyInt (le_to_int (slice 88 92 img)),
      ''hdr_version'' \<mapsto> PyInt (le_to_int (slice 96 100 img)),
      ''option_flags'' \<mapsto> PyInt (le_to_int (slice 100 104 img)),
      ''ecdsa_algo'' \<mapsto> PyInt (le_to_int (slice 104 108 img)),
      ''ecdsa_pubkey'' \<mapsto> PyBytes (slice 108 172 img)]"
  let ?h' = "?h(''ecdsa_pubkey'' \<mapsto> PyBytes (get_raw_pubkey key),
                ''ecdsa_algo'' \<mapsto> PyInt 1, ''option_flags'' \<mapsto> PyInt 0)"
  have u: "unpack_header img = Inr ?h" using assms(1) by (rule unpack_header_Inr)
  have r: "repack_header img ?h' = Inr (sign_rewrite img (get_raw_pubkey key))"
    unfolding sign_rewrite_def by (rule repack_header_eq) simp_all
  show ?thesis
    unfolding sign_image_def u
    using assms(2,3) r
    by (simp add: key_algorithm_eq slice_0_4 Let_def)
qed

lemma header_bytes_length [simp]:
  "length (header_bytes m s c hv len entry load rv flags algo pk) = 256"
  by (simp add: header_bytes_def)

lemma header_bytes_slices:
  fixes r :: bytes
  assumes H: "H = header_bytes m s c hv len entry load rv flags algo pk"
  shows "slice 0 4 (H @ r) = pack_s 4 m"
    and "slice 4 68 (H @ r) = pack_s 64 s"
    and "slice 68 72 (H @ r) = int_to_le 4 c"
    and "slice 72 76 (H @ r) = int_to_le 4 hv"
    and "slice 76 80 (H @ r) = int_to_le 4 len"
    and "slice 80 84 (H @ r) = int_to_le 4 entry"
    and "slice 84 88 (H @ r) = int_to_le 4 0"
    and "slice 88 92 (H @ r) = int_to_le 4 load"
    and "slice 92 96 (H @ r) = int_to_le 4 0"
    and "slice 96 100 (H @ r) = int_to_le 4 rv"
    and "slice 100 104 (H @ r) = int_to_le 4 flags"
    and "slice 104 108 (H @ r) = int_to_le 4 algo"
    and "slice 108 172 (H @ r) = pack_s 64 pk"
    and "slice 172 255 (H @ r) = replicate 83 0"
    and "slice 255 256 (H @ r) = int_to_le 1 0"
    and "drop 256 (H @ r) = r"
  by (simp_all add: H header_bytes_def slice_def)

lemma splice_length:
  "length sig = 64 \<Longrightarrow> 68 \<le> length img1 \<Longrightarrow>
   length (take 4 img1 @ sig @ drop 68 img1) = length img1"
  by simp

lemma splice_slice_hi:
  "length sig = 64 \<Longrightarrow> 68 \<le> length img1 \<Longrightarrow> 68 \<le> a \<Longrightarrow>
   slice a b (take 4 img1 @ sig @ drop 68 img1) = slice a b (img1::bytes)"
  by (simp add: slice_def)

lemma splice_drop_hi:
  "length sig = 64 \<Longrightarrow> 68 \<le> length img1 \<Longrightarrow> 68 \<le> a \<Longrightarrow>
   drop a (take 4 img1 @ sig @ drop 68 img1) = drop a (img1::bytes)"
  by simp

lemma splice_sig:
  "length sig = 64 \<Longrightarrow> 68 \<le> length img1 \<Longrightarrow>
   slice 4 68 (take 4 img1 @ sig @ drop 68 img1) = (sig::bytes)"
  by (simp add: slice_def)

lemma splice_magic:
  "4 \<le> length img1 \<Longrightarrow> take 4 (take 4 img1 @ sig @ drop 68 img1) = take 4 (img1::bytes)"
  by simp

lemma verify_signature_eq:
  "256 \<le> length img \<Longrightarrow> verify_signature P img key =
     (if get_raw_pubkey key \<noteq> slice 108 172 img then Inr 1
      else (case DSS_verify P key (SHA256 P (drop 72 img)) (slice 4 68 img) of
              Inl e \<Rightarrow> Inl e
            | Inr ok \<Rightarrow> if ok then Inr 0 else Inr 2))"
  by (simp add: verify_signature_def unpack_header_Inr get_bytes_def Let_def)

lemma length_to_bytes: "n < 256 ^ k \<Longrightarrow> 0 < k \<Longrightarrow> length (to_bytes n) \<le> k"
proof (induction n arbitrary: k rule: to_bytes.induct)
  case (1 n)
  show ?case
  proof (cases "n < 256")
    case True
    then show ?thesis using 1 by (simp add: to_bytes.simps)
  next
    case False
    then obtain j where k: "k = Suc j" using 1 by (cases k) auto
    have "0 < j" using False 1 k by (cases j) auto
    moreover have "n div 256 < 256 ^ j" using 1 k by (simp add: less_mult_imp_div_less mult.commute)
    ultimately have "length (to_bytes (n div 256)) \<le> j" using 1(1)[OF False] by simp
    then show ?thesis using False k by (subst to_bytes.simps) simp
  qed
qed

lemma length_rjust: "length b \<le> w \<Longrightarrow> length (rjust w c b) = w"
  by (simp add: rjust_def)

lemma length_get_raw_pubkey:
  assumes "pointQ_x key < 2 ^ 256" "pointQ_y key < 2 ^ 256"
  shows "length (get_raw_pubkey key) = 64"
proof -
  have e: "(2::nat) ^ 256 = 256 ^ 32" by simp
  have "length (to_bytes (pointQ_x key)) \<le> 32" "length (to_bytes (pointQ_y key)) \<le> 32"
    using assms unfolding e by (auto intro: length_to_bytes)
  then show ?thesis by (simp add: get_raw_pubkey_def Let_def length_rjust)
qed

section \<open>Signing an image that is not an STM32 image\<close>

text \<open>
  Claim C5. When the first four bytes of the buffer are not \<^verbatim>\<open>STM2\<close>, signing does
  not touch the buffer, in either script: on a buffer of 256 bytes or more
  \<^verbatim>\<open>sign_image\<close> and \<^verbatim>\<open>pkcs11_sign_image\<close> return -1; on a shorter buffer
  \<^verbatim>\<open>struct.unpack\<close> has raised \<^verbatim>\<open>struct.error\<close> before the magic is looked at. Both
  are what the specification calls a format error.
\<close>

theorem sign_bad_magic:
  assumes "take 4 img \<noteq> STM2"
  shows "sign_image P rnd img key =
           (if length img < 256 then Inl StructError else Inr (- 1), img) \<and>
         pkcs11_sign_image P rnd img module_path token key_label pin =
           (if length img < 256 then Inl StructError else Inr (- 1), img)"
  using assms
  by (auto simp: sign_image_def pkcs11_sign_image_def unpack_header_Inl
      pkcs11_unpack_header_Inl unpack_header_Inr pkcs11_unpack_header_Inr slice_0_4 not_less)

theorem sign_bad_magic_witness:
  "take 4 ([0x7F, 0x45, 0x4C, 0x46] @ replicate 256 (0::byte)) \<noteq> STM2 \<and>
   sign_image stub_crypto 7 ([0x7F, 0x45, 0x4C, 0x46] @ replicate 256 0) test_key =
     (Inr (- 1), [0x7F, 0x45, 0x4C, 0x46] @ replicate 256 0) \<and>
   pkcs11_sign_image stub_crypto 7 ([0x7F, 0x45, 0x4C, 0x46] @ replicate 256 0)
       ''/usr/lib/softhsm/libsofthsm2.so'' ''token'' ''key6892'' ''1234'' =
     (Inr (- 1), [0x7F, 0x45, 0x4C, 0x46] @ replicate 256 0)"
proof -
  have h: "take 4 ([0x7F, 0x45, 0x4C, 0x46] @ replicate 256 (0::byte)) \<noteq> STM2"
    by (simp add: STM2_def)
  show ?thesis
    using h sign_bad_magic [OF h, of stub_crypto 7 test_key
        "''/usr/lib/softhsm/libsofthsm2.so''" "''token''" "''key6892''" "''1234''"]
    by simp
qed

section \<open>More on the steps of signing, and the concrete inputs\<close>

lemma length_sign_rewrite [simp]: "length (sign_rewrite img pk) = 256 + (length img - 256)"
  by (simp add: sign_rewrite_def)

lemma length_pkcs11_sign_rewrite [simp]:
  "length (pkcs11_sign_rewrite img pk) = 256 + (length img - 256)"
  by (simp add: pkcs11_sign_rewrite_def)

lemma pkcs11_sign_image_unfold:
  assumes "256 \<le> length img" "take 4 img = STM2"
    and "open_session P module_path token pin = Inr session"
    and "session key_label PRIVATE_KEY = Inr privkey"
    and "session key_label PUBLIC_KEY = Inr pubkey"
    and "curve pubkey \<in> set p256_names"
  shows "pkcs11_sign_image P rnd img module_path token key_label pin =
     (let img1 = pkcs11_sign_rewrite img (get_raw_pubkey pubkey) in
      case token_sign P privkey rnd (SHA256 P (drop 72 img1)) of
        Inl e \<Rightarrow> (Inl e, img1)
      | Inr signature \<Rightarrow> (Inr 0, take 4 img1 @ signature @ drop 68 img1))"
proof -
  let ?h = "[''magic'' \<mapsto> PyBytes (slice 0 4 img),
      ''signature'' \<mapsto> PyBytes (slice 4 68 img),
      ''checksum'' \<mapsto> PyInt (le_to_int (slice 68 72 img)),
      ''hdr_version'' \<mapsto> PyInt (le_to_int (slice 72 76 img)),
      ''length'' \<mapsto> PyInt (le_to_int (slice 76 80 img)),
      ''entry_addr'' \<mapsto> PyInt (le_to_int (slice 80 84 img)),
      ''load_addr'' \<mapsto> PyInt (le_to_int (slice 88 92 img)),
      ''rollback_version'' \<mapsto> PyInt (le_to_int (slice 96 100 img)),
      ''option_flags'' \<mapsto> PyInt (le_to_int (slice 100 104 img)),
      ''ecdsa_algo'' \<mapsto> PyInt (le_to_int (slice 104 108 img)),
      ''ecdsa_pubkey'' \<mapsto> PyBytes (slice 108 172 img)]"
  let ?h' = "?h(''ecdsa_pubkey'' \<mapsto> PyBytes (get_raw_pubkey pubkey),
                ''ecdsa_algo'' \<mapsto> PyInt 1, ''option_flags'' \<mapsto> PyInt 0)"
  have u: "pkcs11_unpack_header img = Inr ?h"
    using assms(1) by (rule pkcs11_unpack_header_Inr)
  have r: "pkcs11_repack_header img ?h' = Inr (pkcs11_sign_rewrite img (get_raw_pubkey pubkey))"
    unfolding pkcs11_sign_rewrite_def by (rule pkcs11_repack_header_eq) simp_all
  show ?thesis
    unfolding pkcs11_sign_image_def u
    using assms(2-) r
    by (simp add: key_algorithm_eq slice_0_4 Let_def)
qed

lemma length_test_image [simp]: "length test_image = 272"
  by (simp add: test_image_def STM2_def)

lemma take_4_test_image [simp]: "take 4 test_image = STM2"
  by (simp add: test_image_def STM2_def)

lemma length_stub_tag [simp]: "length (stub_tag key digest) = 32"
  by (simp add: stub_tag_def)

lemma stub_signer:
  "\<forall>digest. \<exists>sig. DSS_sign stub_crypto test_key rnd digest = Inr sig \<and> length sig = 64 \<and>
     DSS_verify stub_crypto test_key digest sig = Inr True"
  by (simp add: stub_crypto_def stub_sign_def stub_verify_def test_key_def)

section \<open>Signing and then verifying with the same key\<close>

text \<open>
  Claim C1. Take an image (256 bytes or more, as the specification defines an image)
  that starts with \<^verbatim>\<open>STM2\<close> and a P-256 key: a curve name that \<^verbatim>\<open>key_algorithm\<close>
  accepts and coordinates below \<open>2 ^ 256\<close>. Suppose the ECDSA library is correct for
  this key: for every digest, signing gives a signature of 64 bytes that verification
  against the same key and digest accepts. Then \<^verbatim>\<open>sign_image\<close> returns 0, and
  \<^verbatim>\<open>verify_signature\<close> on the buffer it leaves returns 0, whatever the length of the
  payload.
\<close>

theorem sign_then_verify:
  assumes len: "256 \<le> length img" and magic: "take 4 img = STM2"
    and curve: "curve key \<in> set p256_names"
    and xy: "pointQ_x key < 2 ^ 256" "pointQ_y key < 2 ^ 256"
    and signer: "\<forall>digest. \<exists>sig. DSS_sign P key rnd digest = Inr sig \<and> length sig = 64 \<and>
                   DSS_verify P key digest sig = Inr True"
  shows "\<exists>img'. sign_image P rnd img key = (Inr 0, img') \<and>
               verify_signature P img' key = Inr 0"
proof -
  define pk where "pk = get_raw_pubkey key"
  define img1 where "img1 = sign_rewrite img pk"
  have lpk: "length pk = 64" unfolding pk_def using xy by (rule length_get_raw_pubkey)
  from signer obtain sig where s: "DSS_sign P key rnd (SHA256 P (drop 72 img1)) = Inr sig"
    and ls: "length sig = 64"
    and v: "DSS_verify P key (SHA256 P (drop 72 img1)) sig = Inr True"
    by blast
  define img2 where "img2 = take 4 img1 @ sig @ drop 68 img1"
  have l1: "68 \<le> length img1" by (simp add: img1_def)
  have l2: "256 \<le> length img2" unfolding img2_def using ls by (simp add: img1_def)
  have d: "drop 72 img2 = drop 72 img1"
    unfolding img2_def using ls l1 by (rule splice_drop_hi) simp
  have g: "slice 4 68 img2 = sig" unfolding img2_def using ls l1 by (rule splice_sig)
  have "slice 108 172 img2 = slice 108 172 img1"
    unfolding img2_def using ls l1 by (rule splice_slice_hi) simp
  also have "\<dots> = pack_s 64 pk"
    unfolding img1_def sign_rewrite_def by (rule header_bytes_slices) (rule refl)
  also have "\<dots> = pk" using lpk by (rule pack_s_id)
  finally have k: "slice 108 172 img2 = pk" .
  have ver: "verify_signature P img2 key = Inr 0"
    by (simp add: verify_signature_eq [OF l2] k d g v flip: pk_def)
  have "sign_image P rnd img key = (Inr 0, img2)"
    by (simp add: sign_image_unfold [OF len magic curve] Let_def s ver
        flip: pk_def img1_def img2_def)
  with ver show ?thesis by blast
qed

theorem sign_then_verify_witness:
  "256 \<le> length test_image \<and> take 4 test_image = STM2 \<and> curve test_key \<in> set p256_names \<and>
   pointQ_x test_key < 2 ^ 256 \<and> pointQ_y test_key < 2 ^ 256 \<and>
   (\<forall>digest. \<exists>sig. DSS_sign stub_crypto test_key 5 digest = Inr sig \<and> length sig = 64 \<and>
       DSS_verify stub_crypto test_key digest sig = Inr True) \<and>
   (\<exists>img'. sign_image stub_crypto 5 test_image test_key = (Inr 0, img') \<and>
       verify_signature stub_crypto img' test_key = Inr 0)"
proof -
  have h1: "256 \<le> length test_image" by simp
  have h2: "take 4 test_image = STM2" by simp
  have h3: "curve test_key \<in> set p256_names" by (simp add: test_key_def p256_names_def)
  have h4: "pointQ_x test_key < 2 ^ 256" by (simp add: test_key_def)
  have h5: "pointQ_y test_key < 2 ^ 256" by (simp add: test_key_def)
  note h6 = stub_signer [of 5]
  from sign_then_verify [OF h1 h2 h3 h4 h5 h6] h1 h2 h3 h4 h5 h6
  show ?thesis by blast
qed

section \<open>Signing with a key on another curve\<close>

text \<open>
  Claim C6. When the image starts with \<^verbatim>\<open>STM2\<close> and the curve of the key is not one
  of the P-256 names, \<^verbatim>\<open>key_algorithm\<close> raises \<^verbatim>\<open>ValueError\<close> before
  \<^verbatim>\<open>repack_header\<close> is called, so the buffer is as it was; the same holds in the
  PKCS#11 script once the token has given the keys. This is for an image of 256 bytes
  or more; on a shorter buffer \<^verbatim>\<open>struct.unpack\<close> has raised \<^verbatim>\<open>struct.error\<close> before,
  and the buffer is as it was too.
\<close>

theorem sign_unsupported_curve:
  assumes "take 4 img = STM2" and "curve key \<notin> set p256_names"
  shows "sign_image P rnd img key =
           (Inl (if length img < 256 then StructError else ValueError), img) \<and>
         (open_session P module_path token pin = Inr session \<and>
          session key_label PRIVATE_KEY = Inr privkey \<and>
          session key_label PUBLIC_KEY = Inr key \<longrightarrow>
          pkcs11_sign_image P rnd img module_path token key_label pin =
            (Inl (if length img < 256 then StructError else ValueError), img))"
  using assms
  by (auto simp: sign_image_def pkcs11_sign_image_def unpack_header_Inl unpack_header_Inr
      pkcs11_unpack_header_Inl pkcs11_unpack_header_Inr slice_0_4 not_less key_algorithm_eq)

theorem sign_unsupported_curve_witness:
  "take 4 test_image = STM2 \<and> curve p384_key \<notin> set p256_names \<and>
   open_session (stub_crypto\<lparr>open_session := \<lambda>m t p. Inr (\<lambda>l c. Inr p384_key)\<rparr>)
     ''/usr/lib/softhsm/libsofthsm2.so'' ''token'' ''1234'' = Inr (\<lambda>l c. Inr p384_key) \<and>
   sign_image (stub_crypto\<lparr>open_session := \<lambda>m t p. Inr (\<lambda>l c. Inr p384_key)\<rparr>)
     5 test_image p384_key = (Inl ValueError, test_image) \<and>
   pkcs11_sign_image (stub_crypto\<lparr>open_session := \<lambda>m t p. Inr (\<lambda>l c. Inr p384_key)\<rparr>)
     5 test_image ''/usr/lib/softhsm/libsofthsm2.so'' ''token'' ''key6892'' ''1234'' =
     (Inl ValueError, test_image)"
proof -
  have h1: "take 4 test_image = STM2" by simp
  have h2: "curve p384_key \<notin> set p256_names" by (simp add: p384_key_def p256_names_def)
  show ?thesis
    using h1 h2 sign_unsupported_curve [OF h1 h2,
        of "stub_crypto\<lparr>open_session := \<lambda>m t p. Inr (\<lambda>l c. Inr p384_key)\<rparr>" 5
           "''/usr/lib/softhsm/libsofthsm2.so''" "''token''" "''1234''"
           "\<lambda>l c. Inr p384_key" "''key6892''" p384_key]
    by simp
qed

section \<open>Verifying against the key on the token\<close>

lemma pkcs11_verify_signature_eq:
  "256 \<le> length img \<Longrightarrow> pkcs11_verify_signature P img module_path token key_label pin =
     (case open_session P module_path token pin of
        Inl e \<Rightarrow> Inl e
      | Inr session \<Rightarrow>
          (case session key_label PUBLIC_KEY of
             Inl e \<Rightarrow> Inl e
           | Inr pubkey \<Rightarrow>
               (case DSS_verify P pubkey (SHA256 P (drop 72 img)) (slice 4 68 img) of
                  Inl e \<Rightarrow> Inl e
                | Inr ok \<Rightarrow> if ok then Inr 0 else Inr 2)))"
  by (simp add: pkcs11_verify_signature_def pkcs11_unpack_header_Inr get_bytes_def Let_def)

lemma length_unbound_image [simp]: "length unbound_image = 272"
  by (simp add: unbound_image_def test_image_def STM2_def)

lemma unbound_image_pubkey: "slice 0x6C 0xAC unbound_image = replicate 64 0"
  by (simp add: unbound_image_def test_image_def STM2_def slice_def flip: replicate_add)

lemma unbound_image_verifies:
  "DSS_verify stub_crypto test_key (SHA256 stub_crypto (drop 0x48 unbound_image))
     (slice 0x04 0x44 unbound_image) = Inr True"
  by (simp add: unbound_image_def test_image_def STM2_def slice_def stub_crypto_def
      stub_verify_def stub_sha_def stub_tag_def pack_s_def test_key_def)


lemma get_raw_pubkey_test_key:
  "get_raw_pubkey test_key =
     [0x6B, 0x17, 0xD1, 0xF2, 0xE1, 0x2C, 0x42, 0x47, 0xF8, 0xBC, 0xE6, 0xE5, 0x63, 0xA4, 0x40, 0xF2,
      0x77, 0x03, 0x7D, 0x81, 0x2D, 0xEB, 0x33, 0xA0, 0xF4, 0xA1, 0x39, 0x45, 0xD8, 0x98, 0xC2, 0x96,
      0x4F, 0xE3, 0x42, 0xE2, 0xFE, 0x1A, 0x7F, 0x9B, 0x8E, 0xE7, 0xEB, 0x4A, 0x7C, 0x0F, 0x9E, 0x16,
      0x2B, 0xCE, 0x33, 0x57, 0x6B, 0x31, 0x5E, 0xCE, 0xCB, 0xB6, 0x40, 0x68, 0x37, 0xBF, 0x51, 0xF5]"
  by (simp add: get_raw_pubkey_def test_key_def to_bytes.simps rjust_def)

lemma unbound_image_other_key: "slice 0x6C 0xAC unbound_image \<noteq> get_raw_pubkey test_key"
proof
  assume "slice 0x6C 0xAC unbound_image = get_raw_pubkey test_key"
  then have "hd (replicate 64 (0::byte)) = hd (get_raw_pubkey test_key)"
    by (simp add: unbound_image_pubkey)
  then show False by (simp add: get_raw_pubkey_test_key)
qed

text \<open>
  Claim C8. \<^verbatim>\<open>pkcs11_verify_signature\<close> reads the public key of the header into
  \<^verbatim>\<open>image_pubkey\<close> and never uses it: it never returns 1, and it returns 0 whenever
  the key that the token holds under the label accepts the signature over the bytes
  from 0x48 on, whatever public key the header holds. The witness is an image whose
  header holds no key at all: the PKCS#11 script returns 0 for it, the local-key script
  returns 1.
\<close>

theorem pkcs11_verify_no_key_check:
  "pkcs11_verify_signature P img module_path token key_label pin \<noteq> Inr 1 \<and>
   (256 \<le> length img \<and> open_session P module_path token pin = Inr session \<and>
    session key_label PUBLIC_KEY = Inr pubkey \<and>
    DSS_verify P pubkey (SHA256 P (drop 0x48 img)) (slice 0x04 0x44 img) = Inr True \<longrightarrow>
    pkcs11_verify_signature P img module_path token key_label pin = Inr 0)"
proof (cases "256 \<le> length img")
  case True
  then show ?thesis
    by (auto simp: pkcs11_verify_signature_eq split: sum.splits)
next
  case False
  then show ?thesis
    by (simp add: pkcs11_verify_signature_def pkcs11_unpack_header_Inl)
qed

theorem pkcs11_verify_no_key_check_witness:
  "256 \<le> length unbound_image \<and>
   open_session stub_crypto ''/usr/lib/softhsm/libsofthsm2.so'' ''token'' ''1234'' = Inr stub_session \<and>
   stub_session ''key6892'' PUBLIC_KEY = Inr test_key \<and>
   DSS_verify stub_crypto test_key (SHA256 stub_crypto (drop 0x48 unbound_image))
     (slice 0x04 0x44 unbound_image) = Inr True \<and>
   slice 0x6C 0xAC unbound_image \<noteq> get_raw_pubkey test_key \<and>
   pkcs11_verify_signature stub_crypto unbound_image
     ''/usr/lib/softhsm/libsofthsm2.so'' ''token'' ''key6892'' ''1234'' = Inr 0 \<and>
   verify_signature stub_crypto unbound_image test_key = Inr 1"
proof -
  have h1: "256 \<le> length unbound_image" by simp
  have h2: "open_session stub_crypto ''/usr/lib/softhsm/libsofthsm2.so'' ''token'' ''1234'' =
              Inr stub_session"
    by (simp add: stub_crypto_def)
  have h3: "stub_session ''key6892'' PUBLIC_KEY = Inr test_key" by (simp add: stub_session_def)
  note h4 = unbound_image_verifies
  note h5 = unbound_image_other_key
  have l: "verify_signature stub_crypto unbound_image test_key = Inr 1"
    using h5 by (simp add: verify_signature_eq [OF h1])
  from pkcs11_verify_no_key_check [of stub_crypto unbound_image
      "''/usr/lib/softhsm/libsofthsm2.so''" "''token''" "''key6892''" "''1234''"
      stub_session test_key] h1 h2 h3 h4 h5 l
  show ?thesis by blast
qed

section \<open>What encoding writes\<close>

lemma struct_pack_s:
  "struct_pack (Fmt_s n # f) vs = Inr p \<longleftrightarrow>
     (\<exists>b vs' r. vs = PyBytes b # vs' \<and> struct_pack f vs' = Inr r \<and> p = pack_s n b @ r)"
proof (cases vs)
  case Nil
  then show ?thesis by simp
next
  case (Cons v vs')
  then show ?thesis by (cases v) (auto split: sum.splits)
qed

lemma struct_pack_I:
  "struct_pack (Fmt_I # f) vs = Inr p \<longleftrightarrow>
     (\<exists>v vs' r. vs = PyInt v # vs' \<and> u32 v \<and> struct_pack f vs' = Inr r \<and>
        p = int_to_le 4 v @ r)"
proof (cases vs)
  case Nil
  then show ?thesis by simp
next
  case (Cons v vs')
  then show ?thesis by (cases v) (auto simp: u32_def split: sum.splits)
qed

lemma struct_pack_B:
  "struct_pack (Fmt_B # f) vs = Inr p \<longleftrightarrow>
     (\<exists>v vs' r. vs = PyInt v # vs' \<and> 0 \<le> v \<and> v < 256 \<and> struct_pack f vs' = Inr r \<and>
        p = int_to_le 1 v @ r)"
proof (cases vs)
  case Nil
  then show ?thesis by simp
next
  case (Cons v vs')
  then show ?thesis by (cases v) (auto split: sum.splits)
qed

lemma struct_pack_x:
  "struct_pack (Fmt_x n # f) vs = Inr p \<longleftrightarrow>
     (\<exists>r. struct_pack f vs = Inr r \<and> p = replicate n 0 @ r)"
  by (auto split: sum.splits)

lemma struct_pack_Nil: "struct_pack [] vs = Inr p \<longleftrightarrow> vs = [] \<and> p = []"
  by (cases vs) auto

lemma eval_args_Item:
  "eval_args d (Item k # as) = Inr vs \<longleftrightarrow>
     (\<exists>v vs'. d k = Some v \<and> eval_args d as = Inr vs' \<and> vs = v # vs')"
  by (auto split: option.splits sum.splits)

lemma eval_args_Lit:
  "eval_args d (Lit i # as) = Inr vs \<longleftrightarrow>
     (\<exists>vs'. eval_args d as = Inr vs' \<and> vs = PyInt i # vs')"
  by (auto split: sum.splits)

lemma int_to_le_0: "int_to_le n 0 = replicate n 0"
  by (induction n) auto

lemma struct_pack_fmt_zero:
  assumes "struct_pack fmt [v0, v1, v2, v3, v4, v5, PyInt 0, v7, PyInt 0, v9, v10, v11, v12,
             PyInt 0] = Inr packed"
  shows "length packed = 256 \<and> slice 84 88 packed = replicate 4 0 \<and>
         slice 92 96 packed = replicate 4 0 \<and> slice 172 255 packed = replicate 83 0 \<and>
         slice 255 256 packed = [0]"
  using assms
  unfolding fmt_def struct_pack_s struct_pack_I struct_pack_B struct_pack_x struct_pack_Nil
  by (elim exE conjE) (simp add: slice_def int_to_le_0)

lemma packed_frame:
  fixes img :: bytes
  assumes "256 \<le> length img"
    and "length packed = 256 \<and> slice 84 88 packed = replicate 4 0 \<and>
         slice 92 96 packed = replicate 4 0 \<and> slice 172 255 packed = replicate 83 0 \<and>
         slice 255 256 packed = [0]"
  shows "length (packed @ drop 256 img) = length img \<and>
         drop 256 (packed @ drop 256 img) = drop 256 img \<and>
         slice 0x54 0x58 (packed @ drop 256 img) = replicate 4 0 \<and>
         slice 0x5C 0x60 (packed @ drop 256 img) = replicate 4 0 \<and>
         slice 0xAC 0xFF (packed @ drop 256 img) = replicate 83 0 \<and>
         slice 0xFF 0x100 (packed @ drop 256 img) = [0]"
  using assms by (simp add: slice_def)

lemma repack_header_Inr_frame:
  assumes "256 \<le> length img" and "repack_header img h = Inr img'"
  shows "length img' = length img \<and> drop 256 img' = drop 256 img \<and>
         slice 0x54 0x58 img' = replicate 4 0 \<and> slice 0x5C 0x60 img' = replicate 4 0 \<and>
         slice 0xAC 0xFF img' = replicate 83 0 \<and> slice 0xFF 0x100 img' = [0]"
proof -
  from assms(2) obtain vs packed where a: "eval_args h repack_args = Inr vs"
    and p: "struct_pack fmt vs = Inr packed" and i: "img' = packed @ drop 256 img"
    by (auto simp: repack_header_def split: sum.splits)
  from a obtain v0 v1 v2 v3 v4 v5 v7 v9 v10 v11 v12 where
    "vs = [v0, v1, v2, v3, v4, v5, PyInt 0, v7, PyInt 0, v9, v10, v11, v12, PyInt 0]"
    unfolding repack_args_def eval_args_Item eval_args_Lit by auto
  with p have "length packed = 256 \<and> slice 84 88 packed = replicate 4 0 \<and>
         slice 92 96 packed = replicate 4 0 \<and> slice 172 255 packed = replicate 83 0 \<and>
         slice 255 256 packed = [0]"
    by (simp only: struct_pack_fmt_zero)
  with assms(1) show ?thesis unfolding i by (rule packed_frame)
qed

lemma pkcs11_repack_header_Inr_frame:
  assumes "256 \<le> length img" and "pkcs11_repack_header img h = Inr img'"
  shows "length img' = length img \<and> drop 256 img' = drop 256 img \<and>
         slice 0x54 0x58 img' = replicate 4 0 \<and> slice 0x5C 0x60 img' = replicate 4 0 \<and>
         slice 0xAC 0xFF img' = replicate 83 0 \<and> slice 0xFF 0x100 img' = [0]"
proof -
  from assms(2) obtain vs packed where a: "eval_args h pkcs11_repack_args = Inr vs"
    and p: "struct_pack fmt vs = Inr packed" and i: "img' = packed @ drop 256 img"
    by (auto simp: pkcs11_repack_header_def split: sum.splits)
  from a obtain v0 v1 v2 v3 v4 v5 v7 v9 v10 v11 v12 where
    "vs = [v0, v1, v2, v3, v4, v5, PyInt 0, v7, PyInt 0, v9, v10, v11, v12, PyInt 0]"
    unfolding pkcs11_repack_args_def eval_args_Item eval_args_Lit by auto
  with p have "length packed = 256 \<and> slice 84 88 packed = replicate 4 0 \<and>
         slice 92 96 packed = replicate 4 0 \<and> slice 172 255 packed = replicate 83 0 \<and>
         slice 255 256 packed = [0]"
    by (simp only: struct_pack_fmt_zero)
  with assms(1) show ?thesis unfolding i by (rule packed_frame)
qed

lemma is_bytes_D: "is_bytes n v \<Longrightarrow> \<exists>b. v = Some (PyBytes b) \<and> length b = n"
  by (auto simp: is_bytes_def split: option.splits pyval.splits)

lemma is_u32_D: "is_u32 v \<Longrightarrow> \<exists>i. v = Some (PyInt i) \<and> u32 i"
  by (auto simp: is_u32_def split: option.splits pyval.splits)

lemma header_record_D:
  assumes "header_record h"
  obtains m s c hv len entry load rv flags algo pk where
    "h ''magic'' = Some (PyBytes m)" "h ''signature'' = Some (PyBytes s)"
    "h ''checksum'' = Some (PyInt c)" "h ''hdr_version'' = Some (PyInt hv)"
    "h ''length'' = Some (PyInt len)" "h ''entry_addr'' = Some (PyInt entry)"
    "h ''load_addr'' = Some (PyInt load)" "h ''rollback_version'' = Some (PyInt rv)"
    "h ''option_flags'' = Some (PyInt flags)"
    "h ''ecdsa_algo'' = Some (PyInt algo)" "h ''ecdsa_pubkey'' = Some (PyBytes pk)"
    "length m = 4" "length s = 64" "length pk = 64"
    "u32 c" "u32 hv" "u32 len" "u32 entry" "u32 load" "u32 rv" "u32 flags" "u32 algo"
proof -
  from assms have
    "is_bytes 4 (h ''magic'')" "is_bytes 64 (h ''signature'')" "is_u32 (h ''checksum'')"
    "is_u32 (h ''hdr_version'')" "is_u32 (h ''length'')" "is_u32 (h ''entry_addr'')"
    "is_u32 (h ''load_addr'')" "is_u32 (h ''rollback_version'')"
    "is_u32 (h ''option_flags'')" "is_u32 (h ''ecdsa_algo'')" "is_bytes 64 (h ''ecdsa_pubkey'')"
    by (simp_all add: header_record_def)
  then show thesis
    using that by (elim is_bytes_D [THEN exE] is_u32_D [THEN exE] conjE) blast
qed

lemma dom_test_header: "dom test_header = set header_keys"
  unfolding test_header_def header_keys_def
  by (simp add: insert_commute)

lemma header_record_test_header: "header_record test_header"
  unfolding header_record_def
  by (simp add: dom_test_header) (simp add: test_header_def is_bytes_def is_u32_def u32_def STM2_def)

text \<open>
  Claim C9. On a buffer of 256 bytes or more, \<^verbatim>\<open>repack_header\<close> of either script,
  when it returns, leaves the length of the buffer and every byte from offset 256 on as
  they were, and the bytes of reserved1 (0x54), reserved2 (0x5C), the padding (0xAC to
  0xFE) and binding_id (0xFF) are zero, whatever the dict holds: these come from the
  literal zeros and the pad bytes of the format. On a header record it does return.
  (When it raises, on a dict with a key missing or a value out of range, the slice
  assignment has not happened and the buffer is as it was.)
\<close>

theorem repack_header_frame:
  assumes "256 \<le> length img"
  shows "(repack_header img h = Inr img' \<or> pkcs11_repack_header img h = Inr img' \<longrightarrow>
            length img' = length img \<and> drop 256 img' = drop 256 img \<and>
            slice 0x54 0x58 img' = replicate 4 0 \<and> slice 0x5C 0x60 img' = replicate 4 0 \<and>
            slice 0xAC 0xFF img' = replicate 83 0 \<and> slice 0xFF 0x100 img' = [0]) \<and>
         (header_record h \<longrightarrow>
            (\<exists>a. repack_header img h = Inr a) \<and> (\<exists>b. pkcs11_repack_header img h = Inr b))"
proof -
  have frame: "length img' = length img \<and> drop 256 img' = drop 256 img \<and>
            slice 0x54 0x58 img' = replicate 4 0 \<and> slice 0x5C 0x60 img' = replicate 4 0 \<and>
            slice 0xAC 0xFF img' = replicate 83 0 \<and> slice 0xFF 0x100 img' = [0]"
    if "repack_header img h = Inr img' \<or> pkcs11_repack_header img h = Inr img'"
    using that repack_header_Inr_frame [OF assms] pkcs11_repack_header_Inr_frame [OF assms]
    by blast
  have local: "\<exists>a. repack_header img h = Inr a" if "header_record h"
    using that by (elim header_record_D) (blast intro: repack_header_eq)
  have pkcs11: "\<exists>b. pkcs11_repack_header img h = Inr b" if "header_record h"
    using that by (elim header_record_D) (blast intro: pkcs11_repack_header_eq)
  from frame local pkcs11 show ?thesis by blast
qed

theorem repack_header_frame_witness:
  "256 \<le> length (replicate 272 (0xFF::byte)) \<and> header_record test_header \<and>
   pkcs11_repack_header (replicate 272 0xFF) test_header =
     Inr (header_bytes STM2 (replicate 64 0) 0 65536 16 0 0 7 0 1 (replicate 64 0) @
          drop 256 (replicate 272 0xFF)) \<and>
   slice 0x54 0x58 (header_bytes STM2 (replicate 64 0) 0 65536 16 0 0 7 0 1 (replicate 64 0) @
          drop 256 (replicate 272 0xFF)) = replicate 4 0 \<and>
   drop 256 (header_bytes STM2 (replicate 64 0) 0 65536 16 0 0 7 0 1 (replicate 64 0) @
          drop 256 (replicate 272 0xFF)) = drop 256 (replicate 272 0xFF) \<and>
   (\<exists>a. repack_header (replicate 272 0xFF) test_header = Inr a)"
proof -
  have h1: "256 \<le> length (replicate 272 (0xFF::byte))" by simp
  note h2 = header_record_test_header
  have h3: "pkcs11_repack_header (replicate 272 0xFF) test_header =
     Inr (header_bytes STM2 (replicate 64 0) 0 65536 16 0 0 7 0 1 (replicate 64 0) @
          drop 256 (replicate 272 0xFF))"
    by (rule pkcs11_repack_header_eq) (simp_all add: test_header_def u32_def)
  from repack_header_frame [OF h1, of test_header
      "header_bytes STM2 (replicate 64 0) 0 65536 16 0 0 7 0 1 (replicate 64 0) @
          drop 256 (replicate 272 0xFF)"] h1 h2 h3
  show ?thesis by blast
qed

section \<open>The two version fields\<close>

lemma u32_D: "u32 v \<Longrightarrow> le_to_int (int_to_le 4 v) = v"
  by (rule le_to_int_int_to_le) (simp_all add: u32_def)

lemma pkcs11_unpack_header_bytes:
  assumes l: "length m = 4" "length s = 64" "length pk = 64"
    and u: "u32 c" "u32 hv" "u32 len" "u32 entry" "u32 load" "u32 rv" "u32 flags" "u32 algo"
  shows "pkcs11_unpack_header (header_bytes m s c hv len entry load rv flags algo pk @ r) =
     Inr [''magic'' \<mapsto> PyBytes m, ''signature'' \<mapsto> PyBytes s,
      ''checksum'' \<mapsto> PyInt c, ''hdr_version'' \<mapsto> PyInt hv, ''length'' \<mapsto> PyInt len,
      ''entry_addr'' \<mapsto> PyInt entry, ''load_addr'' \<mapsto> PyInt load,
      ''rollback_version'' \<mapsto> PyInt rv, ''option_flags'' \<mapsto> PyInt flags,
      ''ecdsa_algo'' \<mapsto> PyInt algo, ''ecdsa_pubkey'' \<mapsto> PyBytes pk]"
proof -
  have len: "256 \<le> length (header_bytes m s c hv len entry load rv flags algo pk @ r)"
    by simp
  show ?thesis
    unfolding pkcs11_unpack_header_Inr [OF len] header_bytes_slices [OF refl]
    by (simp only: pack_s_id l u u32_D)
qed


lemma map_eqI_dom:
  assumes "dom h = A" "dom M = A" "\<And>k. k \<in> A \<Longrightarrow> h k = M k"
  shows "h = M"
proof (rule ext)
  fix k
  show "h k = M k"
  proof (cases "k \<in> A")
    case True
    then show ?thesis by (rule assms(3))
  next
    case False
    then have "h k = None" "M k = None" using assms(1,2) by (auto simp: domIff)
    then show ?thesis by simp
  qed
qed

lemma header_keys_cases:
  assumes "k \<in> set header_keys"
  shows "k = ''magic'' \<or> k = ''signature'' \<or> k = ''checksum''
    \<or> k = ''hdr_version'' \<or> k = ''length'' \<or> k = ''entry_addr'' \<or> k = ''load_addr''
    \<or> k = ''rollback_version'' \<or> k = ''option_flags'' \<or> k = ''ecdsa_algo''
    \<or> k = ''ecdsa_pubkey''"
  using assms unfolding header_keys_def
  by (simp only: set_simps insert_iff empty_iff simp_thms)


lemma dom_header_map:
  "dom [''magic'' \<mapsto> v0, ''signature'' \<mapsto> v1,
      ''checksum'' \<mapsto> v2, ''hdr_version'' \<mapsto> v3, ''length'' \<mapsto> v4,
      ''entry_addr'' \<mapsto> v5, ''load_addr'' \<mapsto> v6,
      ''rollback_version'' \<mapsto> v7, ''option_flags'' \<mapsto> v8,
      ''ecdsa_algo'' \<mapsto> v9, ''ecdsa_pubkey'' \<mapsto> (v10::pyval)] = set header_keys"
  unfolding header_keys_def by (simp add: insert_commute)


lemma header_record_eq:
  fixes h :: stm32
  assumes "dom h = set header_keys"
    and "h ''magic'' = Some v0" "h ''signature'' = Some v1"
    "h ''checksum'' = Some v2" "h ''hdr_version'' = Some v3"
    "h ''length'' = Some v4" "h ''entry_addr'' = Some v5"
    "h ''load_addr'' = Some v6" "h ''rollback_version'' = Some v7"
    "h ''option_flags'' = Some v8"
    "h ''ecdsa_algo'' = Some v9" "h ''ecdsa_pubkey'' = Some v10"
  shows "h = [''magic'' \<mapsto> v0, ''signature'' \<mapsto> v1,
      ''checksum'' \<mapsto> v2, ''hdr_version'' \<mapsto> v3, ''length'' \<mapsto> v4,
      ''entry_addr'' \<mapsto> v5, ''load_addr'' \<mapsto> v6,
      ''rollback_version'' \<mapsto> v7, ''option_flags'' \<mapsto> v8,
      ''ecdsa_algo'' \<mapsto> v9, ''ecdsa_pubkey'' \<mapsto> v10]" (is "h = ?M")
proof (rule map_eqI_dom [OF assms(1) dom_header_map])
  fix k assume "k \<in> set header_keys"
  then have "k = ''magic'' \<or> k = ''signature'' \<or> k = ''checksum''
    \<or> k = ''hdr_version'' \<or> k = ''length'' \<or> k = ''entry_addr'' \<or> k = ''load_addr''
    \<or> k = ''rollback_version'' \<or> k = ''option_flags'' \<or> k = ''ecdsa_algo''
    \<or> k = ''ecdsa_pubkey''"
    by (rule header_keys_cases)
  then show "h k = ?M k"
    by (elim disjE) (simp_all add: assms(2-))
qed

lemma le_to_int_replicate_0 [simp]: "le_to_int (replicate n 0) = 0"
  by (induction n) auto

lemma pkcs11_decode_versions:
  assumes "256 \<le> length img"
  shows "\<exists>h. pkcs11_unpack_header img = Inr h \<and>
     h ''hdr_version'' = Some (PyInt (le_to_int (slice 0x48 0x4C img))) \<and>
     h ''rollback_version'' = Some (PyInt (le_to_int (slice 0x60 0x64 img)))"
  by (simp add: pkcs11_unpack_header_Inr [OF assms])

lemma local_decode_versions:
  assumes "256 \<le> length img"
  shows "\<exists>h. unpack_header img = Inr h \<and>
     h ''hdr_version'' = Some (PyInt (le_to_int (slice 0x60 0x64 img))) \<and>
     h ''rollback_version'' = None"
  by (simp add: unpack_header_Inr [OF assms])

lemma test_image_versions:
  "le_to_int (slice 0x48 0x4C test_image) = 65536" "le_to_int (slice 0x60 0x64 test_image) = 0"
  by (simp_all add: test_image_def slice_def STM2_def)

lemma int_to_le_4:
  "int_to_le 4 v = [word_of_int v, word_of_int (v div 256), word_of_int (v div 256 div 256),
                    word_of_int (v div 256 div 256 div 256)]"
  by (simp add: eval_nat_numeral)

text \<open>
  Claim C2. The PKCS#11 script decodes the integer at 0x48 under \<^verbatim>\<open>'hdr_version'\<close> and
  the integer at 0x60 under \<^verbatim>\<open>'rollback_version'\<close>, for every image of 256 bytes or
  more (\<open>pkcs11_decode_versions\<close>). The local-key script does not: its second
  assignment to \<^verbatim>\<open>'hdr_version'\<close> puts the integer at 0x60 there, and it has no
  \<^verbatim>\<open>'rollback_version'\<close> (\<open>local_decode_versions\<close>). On \<open>test_image\<close>, with
  header version 0x00010000 and 0 at offset 0x60, the local-key script decodes the
  header version 0.
\<close>

theorem local_decode_version_fields:
  "length test_image = 272 \<and>
   le_to_int (slice 0x48 0x4C test_image) = 65536 \<and>
   le_to_int (slice 0x60 0x64 test_image) = 0 \<and>
   (case unpack_header test_image of
      Inl e \<Rightarrow> False
    | Inr h \<Rightarrow> h ''hdr_version'' = Some (PyInt 0) \<and> h ''rollback_version'' = None) \<and>
   (case pkcs11_unpack_header test_image of
      Inl e \<Rightarrow> False
    | Inr h \<Rightarrow> h ''hdr_version'' = Some (PyInt 65536) \<and>
               h ''rollback_version'' = Some (PyInt 0))"
proof -
  have l: "256 \<le> length test_image" by simp
  show ?thesis
    by (simp add: unpack_header_Inr [OF l] pkcs11_unpack_header_Inr [OF l] test_image_versions)
qed

section \<open>Encoding a header record and decoding it again\<close>

lemma unpack_header_bytes:
  assumes l: "length m = 4" "length s = 64" "length pk = 64"
    and u: "u32 c" "u32 hv" "u32 len" "u32 entry" "u32 load" "u32 rv" "u32 flags" "u32 algo"
  shows "unpack_header (header_bytes m s c hv len entry load rv flags algo pk @ r) =
     Inr [''magic'' \<mapsto> PyBytes m, ''signature'' \<mapsto> PyBytes s,
      ''checksum'' \<mapsto> PyInt c, ''length'' \<mapsto> PyInt len,
      ''entry_addr'' \<mapsto> PyInt entry, ''load_addr'' \<mapsto> PyInt load,
      ''hdr_version'' \<mapsto> PyInt rv, ''option_flags'' \<mapsto> PyInt flags,
      ''ecdsa_algo'' \<mapsto> PyInt algo, ''ecdsa_pubkey'' \<mapsto> PyBytes pk]"
proof -
  have len: "256 \<le> length (header_bytes m s c hv len entry load rv flags algo pk @ r)"
    by simp
  show ?thesis
    unfolding unpack_header_Inr [OF len] header_bytes_slices [OF refl]
    by (simp only: pack_s_id l u u32_D)
qed

lemma pkcs11_roundtrip_fields:
  fixes h :: stm32
  assumes d: "dom h = set header_keys"
    and f: "h ''magic'' = Some (PyBytes m)" "h ''signature'' = Some (PyBytes s)"
    "h ''checksum'' = Some (PyInt c)" "h ''hdr_version'' = Some (PyInt hv)"
    "h ''length'' = Some (PyInt len)" "h ''entry_addr'' = Some (PyInt entry)"
    "h ''load_addr'' = Some (PyInt load)" "h ''rollback_version'' = Some (PyInt rv)"
    "h ''option_flags'' = Some (PyInt flags)"
    "h ''ecdsa_algo'' = Some (PyInt algo)" "h ''ecdsa_pubkey'' = Some (PyBytes pk)"
    and l: "length m = 4" "length s = 64" "length pk = 64"
    and u: "u32 c" "u32 hv" "u32 len" "u32 entry" "u32 load" "u32 rv" "u32 flags" "u32 algo"
  shows "\<exists>img'. pkcs11_repack_header img h = Inr img' \<and> pkcs11_unpack_header img' = Inr h"
proof -
  have r: "pkcs11_repack_header img h =
             Inr (header_bytes m s c hv len entry load rv flags algo pk @ drop 256 img)"
    by (rule pkcs11_repack_header_eq; fact)
  have e: "h = [''magic'' \<mapsto> PyBytes m, ''signature'' \<mapsto> PyBytes s,
      ''checksum'' \<mapsto> PyInt c, ''hdr_version'' \<mapsto> PyInt hv, ''length'' \<mapsto> PyInt len,
      ''entry_addr'' \<mapsto> PyInt entry, ''load_addr'' \<mapsto> PyInt load,
      ''rollback_version'' \<mapsto> PyInt rv, ''option_flags'' \<mapsto> PyInt flags,
      ''ecdsa_algo'' \<mapsto> PyInt algo, ''ecdsa_pubkey'' \<mapsto> PyBytes pk]"
    by (rule header_record_eq; fact)
  have "pkcs11_unpack_header (header_bytes m s c hv len entry load rv flags algo pk @ drop 256 img)
          = Inr h"
    by (subst e) (rule pkcs11_unpack_header_bytes [OF l u])
  with r show ?thesis by blast
qed


lemma pkcs11_roundtrip:
  assumes "header_record h"
  shows "\<exists>img'. pkcs11_repack_header img h = Inr img' \<and> pkcs11_unpack_header img' = Inr h"
proof -
  have d: "dom h = set header_keys" using assms by (simp add: header_record_def)
  from assms have b:
    "is_bytes 4 (h ''magic'')" "is_bytes 64 (h ''signature'')" "is_u32 (h ''checksum'')"
    "is_u32 (h ''hdr_version'')" "is_u32 (h ''length'')" "is_u32 (h ''entry_addr'')"
    "is_u32 (h ''load_addr'')" "is_u32 (h ''rollback_version'')"
    "is_u32 (h ''option_flags'')" "is_u32 (h ''ecdsa_algo'')" "is_bytes 64 (h ''ecdsa_pubkey'')"
    by (simp_all add: header_record_def)
  from is_bytes_D [OF b(1)] obtain m where m: "h ''magic'' = Some (PyBytes m)" "length m = 4"
    by blast
  from is_bytes_D [OF b(2)] obtain s where s: "h ''signature'' = Some (PyBytes s)" "length s = 64"
    by blast
  from is_u32_D [OF b(3)] obtain c where c: "h ''checksum'' = Some (PyInt c)" "u32 c"
    by blast
  from is_u32_D [OF b(4)] obtain hv where hv: "h ''hdr_version'' = Some (PyInt hv)" "u32 hv"
    by blast
  from is_u32_D [OF b(5)] obtain len where len: "h ''length'' = Some (PyInt len)" "u32 len"
    by blast
  from is_u32_D [OF b(6)] obtain entry where entry: "h ''entry_addr'' = Some (PyInt entry)"
    "u32 entry" by blast
  from is_u32_D [OF b(7)] obtain load where load: "h ''load_addr'' = Some (PyInt load)"
    "u32 load" by blast
  from is_u32_D [OF b(8)] obtain rv where rv: "h ''rollback_version'' = Some (PyInt rv)"
    "u32 rv" by blast
  from is_u32_D [OF b(9)] obtain flags where flags: "h ''option_flags'' = Some (PyInt flags)"
    "u32 flags" by blast
  from is_u32_D [OF b(10)] obtain algo where algo: "h ''ecdsa_algo'' = Some (PyInt algo)"
    "u32 algo" by blast
  from is_bytes_D [OF b(11)] obtain pk where pk: "h ''ecdsa_pubkey'' = Some (PyBytes pk)"
    "length pk = 64" by blast
  show ?thesis
    by (rule pkcs11_roundtrip_fields [OF d m(1) s(1) c(1) hv(1) len(1) entry(1) load(1) rv(1)
          flags(1) algo(1) pk(1) m(2) s(2) pk(2) c(2) hv(2) len(2) entry(2) load(2) rv(2)
          flags(2) algo(2)])
qed

text \<open>
  Claim C3. With the PKCS#11 script, encoding a header record and decoding the buffer
  gives the record back (\<open>pkcs11_roundtrip\<close>). With the local-key script it does
  not: \<^verbatim>\<open>repack_header\<close> writes \<^verbatim>\<open>'hdr_version'\<close> at 0x48 and at 0x60 and never
  reads \<^verbatim>\<open>'rollback_version'\<close>, and \<^verbatim>\<open>unpack_header\<close> gives no such key. For the
  record \<open>test_header\<close>, with header version 0x00010000 and anti-rollback counter 7,
  the buffer holds 0x00010000 at both offsets and the decoded dict has lost the counter.
\<close>

theorem local_roundtrip_drops_rollback_version:
  "header_record test_header \<and>
   test_header ''hdr_version'' = Some (PyInt 65536) \<and>
   test_header ''rollback_version'' = Some (PyInt 7) \<and>
   (case repack_header (replicate 256 0) test_header of
      Inl e \<Rightarrow> False
    | Inr img' \<Rightarrow>
        slice 0x48 0x4C img' = [0, 0, 1, 0] \<and> slice 0x60 0x64 img' = [0, 0, 1, 0] \<and>
        (case unpack_header img' of
           Inl e \<Rightarrow> False
         | Inr h \<Rightarrow> h \<noteq> test_header \<and> h ''hdr_version'' = Some (PyInt 65536) \<and>
                    h ''rollback_version'' = None))"
proof -
  let ?img = "header_bytes STM2 (replicate 64 0) 0 65536 16 0 0 65536 0 1 (replicate 64 0) @
                drop 256 (replicate 256 (0::byte))"
  let ?h = "[''magic'' \<mapsto> PyBytes STM2, ''signature'' \<mapsto> PyBytes (replicate 64 0),
      ''checksum'' \<mapsto> PyInt 0, ''length'' \<mapsto> PyInt 16,
      ''entry_addr'' \<mapsto> PyInt 0, ''load_addr'' \<mapsto> PyInt 0,
      ''hdr_version'' \<mapsto> PyInt 65536, ''option_flags'' \<mapsto> PyInt 0,
      ''ecdsa_algo'' \<mapsto> PyInt 1, ''ecdsa_pubkey'' \<mapsto> PyBytes (replicate 64 0)]"
  have r: "repack_header (replicate 256 0) test_header = Inr ?img"
    by (rule repack_header_eq) (simp_all add: test_header_def u32_def)
  have u: "unpack_header ?img = Inr ?h"
    by (rule unpack_header_bytes) (simp_all add: u32_def STM2_def)
  have v: "test_header ''hdr_version'' = Some (PyInt 65536)"
    "test_header ''rollback_version'' = Some (PyInt 7)"
    by (simp_all add: test_header_def)
  have n: "?h ''rollback_version'' = None" "?h ''hdr_version'' = Some (PyInt 65536)" by simp_all
  have ne: "?h \<noteq> test_header"
  proof
    assume a: "?h = test_header"
    have "?h ''rollback_version'' = test_header ''rollback_version''" by (simp only: a)
    then show False unfolding n v by simp
  qed
  have s: "slice 0x48 0x4C ?img = [0, 0, 1, 0]" "slice 0x60 0x64 ?img = [0, 0, 1, 0]"
    unfolding header_bytes_slices [OF refl] by (simp_all add: int_to_le_4)
  show ?thesis
    unfolding r sum.case u
    by (intro conjI header_record_test_header v n ne s)
qed

section \<open>What a successful signing leaves in the buffer\<close>

lemma int_to_le_slice:
  "b \<le> length img \<Longrightarrow> b = a + 4 \<Longrightarrow> int_to_le 4 (le_to_int (slice a b img)) = slice a b img"
  using int_to_le_le_to_int [of "slice a b img"] by (simp add: length_slice)

lemma pack_s_slice:
  "b \<le> length img \<Longrightarrow> b = a + n \<Longrightarrow> pack_s n (slice a b img) = slice a b img"
  by (rule pack_s_id) (simp add: length_slice)

lemma int_to_le_4_1: "int_to_le 4 1 = [1, 0, 0, 0]"
  by (simp add: int_to_le_4)

lemma sign_rewrite_slices:
  assumes "256 \<le> length img"
  shows "slice 0 4 (sign_rewrite img pk) = slice 0 4 img"
    and "slice 4 68 (sign_rewrite img pk) = slice 4 68 img"
    and "slice 68 72 (sign_rewrite img pk) = slice 68 72 img"
    and "slice 72 76 (sign_rewrite img pk) = slice 96 100 img"
    and "slice 76 80 (sign_rewrite img pk) = slice 76 80 img"
    and "slice 80 84 (sign_rewrite img pk) = slice 80 84 img"
    and "slice 84 88 (sign_rewrite img pk) = replicate 4 0"
    and "slice 88 92 (sign_rewrite img pk) = slice 88 92 img"
    and "slice 92 96 (sign_rewrite img pk) = replicate 4 0"
    and "slice 96 100 (sign_rewrite img pk) = slice 96 100 img"
    and "slice 100 104 (sign_rewrite img pk) = replicate 4 0"
    and "slice 104 108 (sign_rewrite img pk) = [1, 0, 0, 0]"
    and "slice 108 172 (sign_rewrite img pk) = pack_s 64 pk"
    and "slice 172 255 (sign_rewrite img pk) = replicate 83 0"
    and "slice 255 256 (sign_rewrite img pk) = [0]"
    and "drop 256 (sign_rewrite img pk) = drop 256 img"
  unfolding sign_rewrite_def header_bytes_slices [OF refl]
  using assms by (simp_all add: int_to_le_slice pack_s_slice int_to_le_0 int_to_le_4_1)

lemma pkcs11_sign_rewrite_slices:
  assumes "256 \<le> length img"
  shows "slice 0 4 (pkcs11_sign_rewrite img pk) = slice 0 4 img"
    and "slice 4 68 (pkcs11_sign_rewrite img pk) = slice 4 68 img"
    and "slice 68 72 (pkcs11_sign_rewrite img pk) = slice 68 72 img"
    and "slice 72 76 (pkcs11_sign_rewrite img pk) = slice 72 76 img"
    and "slice 76 80 (pkcs11_sign_rewrite img pk) = slice 76 80 img"
    and "slice 80 84 (pkcs11_sign_rewrite img pk) = slice 80 84 img"
    and "slice 84 88 (pkcs11_sign_rewrite img pk) = replicate 4 0"
    and "slice 88 92 (pkcs11_sign_rewrite img pk) = slice 88 92 img"
    and "slice 92 96 (pkcs11_sign_rewrite img pk) = replicate 4 0"
    and "slice 96 100 (pkcs11_sign_rewrite img pk) = slice 96 100 img"
    and "slice 100 104 (pkcs11_sign_rewrite img pk) = replicate 4 0"
    and "slice 104 108 (pkcs11_sign_rewrite img pk) = [1, 0, 0, 0]"
    and "slice 108 172 (pkcs11_sign_rewrite img pk) = pack_s 64 pk"
    and "slice 172 255 (pkcs11_sign_rewrite img pk) = replicate 83 0"
    and "slice 255 256 (pkcs11_sign_rewrite img pk) = [0]"
    and "drop 256 (pkcs11_sign_rewrite img pk) = drop 256 img"
  unfolding pkcs11_sign_rewrite_def header_bytes_slices [OF refl]
  using assms by (simp_all add: int_to_le_slice pack_s_slice int_to_le_0 int_to_le_4_1)

text \<open>What a successful local sign returns.\<close>

lemma sign_image_success:
  assumes len: "256 \<le> length img"
    and ok: "sign_image P rnd img key = (Inr 0, img')"
  shows "\<exists>sig. take 4 img = STM2 \<and> curve key \<in> set p256_names \<and>
           DSS_sign P key rnd (SHA256 P (drop 72 (sign_rewrite img (get_raw_pubkey key)))) = Inr sig \<and>
           img' = take 4 (sign_rewrite img (get_raw_pubkey key)) @ sig @
                  drop 68 (sign_rewrite img (get_raw_pubkey key))"
proof -
  have m: "take 4 img = STM2"
  proof (rule ccontr)
    assume "take 4 img \<noteq> STM2"
    with len ok show False
      by (simp add: sign_image_def unpack_header_Inr slice_0_4)
  qed
  have c: "curve key \<in> set p256_names"
  proof (rule ccontr)
    assume "curve key \<notin> set p256_names"
    with m len ok show False
      by (simp add: sign_image_def unpack_header_Inr slice_0_4 key_algorithm_eq)
  qed
  from ok show ?thesis
    unfolding sign_image_unfold [OF len m c] Let_def using m c
    by (auto split: sum.splits)
qed

lemma pkcs11_sign_image_success:
  assumes len: "256 \<le> length img"
    and ok: "pkcs11_sign_image P rnd img module_path token key_label pin = (Inr 0, img')"
  shows "\<exists>session privkey pubkey sig. take 4 img = STM2 \<and>
           open_session P module_path token pin = Inr session \<and>
           session key_label PRIVATE_KEY = Inr privkey \<and>
           session key_label PUBLIC_KEY = Inr pubkey \<and>
           curve pubkey \<in> set p256_names \<and>
           token_sign P privkey rnd
             (SHA256 P (drop 72 (pkcs11_sign_rewrite img (get_raw_pubkey pubkey)))) = Inr sig \<and>
           img' = take 4 (pkcs11_sign_rewrite img (get_raw_pubkey pubkey)) @ sig @
                  drop 68 (pkcs11_sign_rewrite img (get_raw_pubkey pubkey))"
proof -
  note d = pkcs11_sign_image_def pkcs11_unpack_header_Inr [OF len] slice_0_4
  have m: "take 4 img = STM2"
  proof (rule ccontr)
    assume "take 4 img \<noteq> STM2"
    with ok show False by (simp add: d)
  qed
  obtain session where s: "open_session P module_path token pin = Inr session"
    using ok m by (cases "open_session P module_path token pin") (simp_all add: d)
  obtain privkey where pr: "session key_label PRIVATE_KEY = Inr privkey"
    using ok m s by (cases "session key_label PRIVATE_KEY") (simp_all add: d)
  obtain pubkey where pu: "session key_label PUBLIC_KEY = Inr pubkey"
    using ok m s pr by (cases "session key_label PUBLIC_KEY") (simp_all add: d)
  have c: "curve pubkey \<in> set p256_names"
  proof (rule ccontr)
    assume "curve pubkey \<notin> set p256_names"
    with ok m s pr pu show False by (simp add: d key_algorithm_eq)
  qed
  from ok show ?thesis
    unfolding pkcs11_sign_image_unfold [OF len m s pr pu c] Let_def using m s pr pu c
    by (auto split: sum.splits)
qed

lemma sign_image_eq:
  assumes len: "256 \<le> length img" and magic: "take 4 img = STM2"
    and curve: "curve key \<in> set p256_names"
    and s: "DSS_sign P key rnd (SHA256 P (drop 72 (sign_rewrite img (get_raw_pubkey key)))) = Inr sig"
    and ls: "length sig = 64"
    and nv: "\<And>e. DSS_verify P key (SHA256 P (drop 72 (sign_rewrite img (get_raw_pubkey key)))) sig
               \<noteq> Inl e"
  shows "sign_image P rnd img key =
           (Inr 0, take 4 (sign_rewrite img (get_raw_pubkey key)) @ sig @
                   drop 68 (sign_rewrite img (get_raw_pubkey key)))"
proof -
  define img1 where "img1 = sign_rewrite img (get_raw_pubkey key)"
  define img2 where "img2 = take 4 img1 @ sig @ drop 68 img1"
  have l1: "68 \<le> length img1" by (simp add: img1_def)
  have l2: "256 \<le> length img2" unfolding img2_def using ls by (simp add: img1_def)
  have d: "drop 72 img2 = drop 72 img1"
    unfolding img2_def using ls l1 by (rule splice_drop_hi) simp
  have g: "slice 4 68 img2 = sig" unfolding img2_def using ls l1 by (rule splice_sig)
  have "\<exists>r. verify_signature P img2 key = Inr r"
    using nv by (cases "DSS_verify P key (SHA256 P (drop 72 img1)) sig")
      (auto simp: verify_signature_eq [OF l2] d g img1_def)
  then obtain r where v: "verify_signature P img2 key = Inr r" ..
  have s': "DSS_sign P key rnd (SHA256 P (drop 72 img1)) = Inr sig"
    using s by (simp add: img1_def)
  show ?thesis
    unfolding sign_image_unfold [OF len magic curve] Let_def img1_def [symmetric] s' sum.case
      img2_def [symmetric] v
    by simp
qed

lemma sign_image_preserves:
  assumes len: "256 \<le> length img"
    and ok: "sign_image P rnd img key = (Inr 0, img')"
    and ls: "\<forall>d s. DSS_sign P key rnd d = Inr s \<longrightarrow> length s = 64"
  shows "length img' = length img \<and> slice 0 4 img' = slice 0 4 img \<and>
         slice 68 72 img' = slice 68 72 img \<and> slice 76 80 img' = slice 76 80 img \<and>
         slice 80 84 img' = slice 80 84 img \<and> slice 88 92 img' = slice 88 92 img \<and>
         slice 96 100 img' = slice 96 100 img \<and> drop 256 img' = drop 256 img \<and>
         slice 72 76 img' = slice 96 100 img"
proof -
  define img1 where "img1 = sign_rewrite img (get_raw_pubkey key)"
  from sign_image_success [OF len ok] obtain sig
    where s: "DSS_sign P key rnd (SHA256 P (drop 72 img1)) = Inr sig"
      and i: "img' = take 4 img1 @ sig @ drop 68 img1"
    unfolding img1_def by blast
  from ls s have l: "length sig = 64" by blast
  have l1: "68 \<le> length img1" by (simp add: img1_def)
  note hi = splice_slice_hi [OF l l1] splice_drop_hi [OF l l1]
  note rw = sign_rewrite_slices [OF len, of "get_raw_pubkey key", folded img1_def]
  have "slice 0 4 img' = slice 0 4 img1" unfolding i slice_0_4 using l1 by simp
  then show ?thesis
    unfolding i using len l
    by (simp add: hi rw) (simp add: img1_def sign_rewrite_slices [OF len])
qed

lemma pkcs11_sign_image_preserves:
  assumes len: "256 \<le> length img"
    and ok: "pkcs11_sign_image P rnd img module_path token key_label pin = (Inr 0, img')"
    and ls: "\<forall>k d s. token_sign P k rnd d = Inr s \<longrightarrow> length s = 64"
  shows "length img' = length img \<and> slice 0 4 img' = slice 0 4 img \<and>
         slice 68 72 img' = slice 68 72 img \<and> slice 76 80 img' = slice 76 80 img \<and>
         slice 80 84 img' = slice 80 84 img \<and> slice 88 92 img' = slice 88 92 img \<and>
         slice 96 100 img' = slice 96 100 img \<and> drop 256 img' = drop 256 img \<and>
         slice 72 76 img' = slice 72 76 img"
proof -
  from pkcs11_sign_image_success [OF len ok] obtain privkey pubkey sig
    where s: "token_sign P privkey rnd
                (SHA256 P (drop 72 (pkcs11_sign_rewrite img (get_raw_pubkey pubkey)))) = Inr sig"
      and i: "img' = take 4 (pkcs11_sign_rewrite img (get_raw_pubkey pubkey)) @ sig @
                     drop 68 (pkcs11_sign_rewrite img (get_raw_pubkey pubkey))"
    by blast
  define img1 where "img1 = pkcs11_sign_rewrite img (get_raw_pubkey pubkey)"
  from ls s have l: "length sig = 64" by blast
  have l1: "68 \<le> length img1" by (simp add: img1_def)
  note hi = splice_slice_hi [OF l l1] splice_drop_hi [OF l l1]
  note rw = pkcs11_sign_rewrite_slices [OF len, of "get_raw_pubkey pubkey", folded img1_def]
  have "slice 0 4 (take 4 img1 @ sig @ drop 68 img1) = slice 0 4 img1"
    unfolding slice_0_4 using l1 by simp
  then show ?thesis
    unfolding i using len l
    by (simp add: hi rw flip: img1_def) (simp add: img1_def pkcs11_sign_rewrite_slices [OF len])
qed



lemma replicate_4: "replicate 4 x = [x, x, x, x]"
  by (simp add: eval_nat_numeral)




section \<open>What signing changes in the header\<close>

lemma stub_sign_length:
  "\<forall>k d s. DSS_sign stub_crypto k rnd d = Inr s \<or> token_sign stub_crypto k rnd d = Inr s
     \<longrightarrow> length s = 64"
  by (auto simp: stub_crypto_def stub_sign_def split: option.splits)

lemma curve_test_key: "curve test_key \<in> set p256_names"
  by (simp add: test_key_def p256_names_def)

lemma sign_test_image:
  "sign_image stub_crypto rnd test_image test_key =
     (Inr 0, snd (sign_image stub_crypto rnd test_image test_key))"
proof -
  have len: "256 \<le> length test_image" by simp
  have s: "DSS_sign stub_crypto test_key rnd d = Inr (pack_s 32 (to_bytes rnd) @ stub_tag test_key d)"
    for d by (simp add: stub_crypto_def stub_sign_def test_key_def)
  have nv: "DSS_verify stub_crypto test_key d sig \<noteq> Inl e" for d sig e
    by (simp add: stub_crypto_def stub_verify_def)
  show ?thesis
    by (simp add: sign_image_eq [OF len take_4_test_image curve_test_key s _ nv])
qed

lemma pkcs11_sign_test_image:
  "pkcs11_sign_image stub_crypto rnd test_image module_path token ''key6892'' pin =
     (Inr 0, snd (pkcs11_sign_image stub_crypto rnd test_image module_path token ''key6892'' pin))"
proof -
  have len: "256 \<le> length test_image" by simp
  have o: "open_session stub_crypto module_path token pin = Inr stub_session"
    by (simp add: stub_crypto_def)
  have k: "stub_session ''key6892'' PRIVATE_KEY = Inr test_key"
    "stub_session ''key6892'' PUBLIC_KEY = Inr test_key"
    by (simp_all add: stub_session_def)
  have s: "token_sign stub_crypto test_key rnd d = Inr (pack_s 32 (to_bytes rnd) @ stub_tag test_key d)"
    for d by (simp add: stub_crypto_def stub_sign_def test_key_def)
  show ?thesis
    by (simp add: pkcs11_sign_image_unfold [OF len take_4_test_image o k curve_test_key] Let_def s)
qed

lemma test_image_slices:
  "slice 72 76 test_image = [0, 0, 1, 0]" "slice 96 100 test_image = [0, 0, 0, 0]"
  by (simp_all add: test_image_def slice_def STM2_def replicate_4)

text \<open>
  Claim C10. A successful signing, by either script, of an image of 256 bytes or more
  (with a signature of 64 bytes) keeps the magic, the checksum, the fields at 0x4C,
  0x50, 0x58 and 0x60 and the payload (\<open>sign_image_preserves\<close>,
  \<open>pkcs11_sign_image_preserves\<close>). The PKCS#11 script keeps the header version at
  0x48 as well. The local-key script does not: it writes there the integer it read at
  0x60, so a field that is neither the signature, the option flags, the algorithm, the
  public key nor reserved changes. On \<open>test_image\<close> the header version 0x00010000
  becomes 0.
\<close>

theorem local_sign_overwrites_header_version:
  "slice 0x48 0x4C test_image = [0, 0, 1, 0] \<and>
   fst (sign_image stub_crypto 5 test_image test_key) = Inr 0 \<and>
   slice 0x48 0x4C (snd (sign_image stub_crypto 5 test_image test_key)) = [0, 0, 0, 0] \<and>
   fst (pkcs11_sign_image stub_crypto 5 test_image
          ''/usr/lib/softhsm/libsofthsm2.so'' ''token'' ''key6892'' ''1234'') = Inr 0 \<and>
   slice 0x48 0x4C (snd (pkcs11_sign_image stub_crypto 5 test_image
          ''/usr/lib/softhsm/libsofthsm2.so'' ''token'' ''key6892'' ''1234'')) = [0, 0, 1, 0]"
proof -
  have len: "256 \<le> length test_image" by simp
  have l: "\<forall>d s. DSS_sign stub_crypto test_key 5 d = Inr s \<longrightarrow> length s = 64"
    using stub_sign_length [of 5] by blast
  have t: "\<forall>k d s. token_sign stub_crypto k 5 d = Inr s \<longrightarrow> length s = 64"
    using stub_sign_length [of 5] by blast
  note a = sign_image_preserves [OF len sign_test_image l]
  note b = pkcs11_sign_image_preserves [OF len pkcs11_sign_test_image t]
  have 1: "fst (sign_image stub_crypto 5 test_image test_key) = Inr 0"
    by (subst sign_test_image) simp
  have 2: "fst (pkcs11_sign_image stub_crypto 5 test_image
          ''/usr/lib/softhsm/libsofthsm2.so'' ''token'' ''key6892'' ''1234'') = Inr 0"
    by (subst pkcs11_sign_test_image) simp
  from a b 1 2 show ?thesis by (simp add: test_image_slices)
qed

section \<open>The bytes that are hashed\<close>





end
